theory Spec2Isabelle
  imports Complex_Main
begin

section \<open>Client: the license check\<close>

text \<open>
  \<^verbatim>\<open>current-user-atom.ts\<close> keeps the signed-in user in \<open>currentUserAtom\<close>, an
  \<open>ICurrentUser | null\<close>. The interfaces \<open>IUser\<close> and \<open>IWorkspace\<close> are declared
  elsewhere; \<open>IUser\<close> stays a type parameter and \<open>IWorkspace\<close> is an extensible record
  that names the one field the code reads or writes, \<open>hasLicenseKey\<close>.
\<close>

record IWorkspace =
  hasLicenseKey :: bool

record ('u, 'w) ICurrentUser =
  user :: 'u
  workspace :: "'w IWorkspace_scheme option"

record LicenseInfo =
  licenseHasLicenseKey :: bool

text \<open>The getter of \<open>workspaceAtom\<close>, as a function of the value of \<open>currentUserAtom\<close>.\<close>

definition workspaceAtom :: "('u, 'w) ICurrentUser option \<Rightarrow> 'w IWorkspace_scheme option" where
  "workspaceAtom currentUser =
     (let workspace = (case currentUser of None \<Rightarrow> None | Some cu \<Rightarrow> workspace cu)
      in case workspace of
           Some ws \<Rightarrow> Some (ws\<lparr>hasLicenseKey := True\<rparr>)
         | None \<Rightarrow> None)"

text \<open>The getter of \<open>userAtom\<close>.\<close>

definition userAtom :: "('u, 'w) ICurrentUser option \<Rightarrow> 'u option" where
  "userAtom currentUser = (case currentUser of None \<Rightarrow> None | Some cu \<Rightarrow> Some (user cu))"

text \<open>The hook \<open>useLicense\<close> reads \<open>currentUserAtom\<close> and ignores what it read.\<close>

definition useLicense :: "('u, 'w) ICurrentUser option \<Rightarrow> LicenseInfo" where
  "useLicense currentUser = \<lparr>licenseHasLicenseKey = True\<rparr>"

section \<open>Server: data, configuration and collaborators\<close>

text \<open>
  A value thrown by a collaborator is either an \<open>Error\<close> object, kept by its
  message, or some other value, kept by what \<open>String(err)\<close> renders.
\<close>

datatype thrown = Error string | NonError string

definition message_or :: "string \<Rightarrow> thrown \<Rightarrow> string" where
  "message_or dflt err = (case err of Error m \<Rightarrow> m | NonError _ \<Rightarrow> dflt)"

definition message_or_String :: "thrown \<Rightarrow> string" where
  "message_or_String err = (case err of Error m \<Rightarrow> m | NonError s \<Rightarrow> s)"

datatype json = JString string | JObject "(string \<times> json) list"

text \<open>
  The jsonb operator \<open>->>\<close> on a text field of a metadata object, as regeneration
  stores it: SQL NULL is \<open>None\<close>. A metadata value that is itself a JSON string
  holding the text of an object, which the query would decode first, is read as
  having no field.
\<close>

fun json_text_field :: "json \<Rightarrow> string \<Rightarrow> string option" where
  "json_text_field (JObject members) k =
     (case map_of members k of Some (JString s) \<Rightarrow> Some s | _ \<Rightarrow> None)"
| "json_text_field (JString _) k = None"

datatype provider =
    OpenAI string
  | GoogleGenerativeAI string
  | OpenAICompatible string string

datatype EmbeddingModel = EmbeddingModel provider string
datatype LanguageModel = LanguageModel provider string

definition CHUNK_SIZE :: nat where "CHUNK_SIZE = 1000"
definition CHUNK_OVERLAP :: nat where "CHUNK_OVERLAP = 200"
definition EMBEDDING_BATCH_SIZE :: nat where "EMBEDDING_BATCH_SIZE = 100"
definition TOP_K :: nat where "TOP_K = 10"

record PageForEmbedding =
  pf_id :: string
  pf_spaceId :: string
  pf_workspaceId :: string
  pf_textContent :: "string option"

text \<open>The tables the two services read and write, one record per row.\<close>

record pages_row =
  pages_id :: string
  pages_title :: "string option"
  pages_slugId :: string
  pages_spaceId :: string
  pages_workspaceId :: string
  pages_textContent :: "string option"
  pages_deletedAt :: "nat option"

record spaces_row =
  spaces_id :: string
  spaces_slug :: string

record 's page_embeddings_row =
  page_id :: string
  space_id :: string
  workspace_id :: string
  model_name :: string
  model_dimensions :: int
  embedding :: 's
  chunk_index :: nat
  chunk_start :: nat
  chunk_length :: nat
  metadata :: json

text \<open>The messages the two loggers are given, by template, with the values interpolated.\<close>

datatype log_msg =
    StartingGeneration string
  | FoundPages nat
  | FailedPage string string
  | GenerationComplete nat nat int
  | GeneratedEmbeddings nat string
  | DeletedWorkspaceEmbeddings string
  | AiSearchFailed string

datatype log_level = LogInfo | LogError | LogDebug

text \<open>
  Every call that leaves the process is recorded in a trace, in the order the calls
  are issued: the statements sent to the database (with the parameters they bind), the
  calls to the embedding and completion models, and the log lines. The tables are lists
  of rows in insertion order, and a statement that reaches the database is executed:
  what can throw is a call to a model, the choice of the driver, and the insert of a
  row that has no vector.
\<close>

datatype effect =
    SqlDeleteEmbeddingsOfPage string
  | SqlDeleteEmbeddingsOfWorkspace string
  | SqlInsertEmbedding string nat
  | SqlSelectPagesOfWorkspace string
  | SqlSelectUserSpaceIds string
  | SqlSelectSimilar string string
  | SqlSelectPagesByIds "string list"
  | EmbedManyCall EmbeddingModel "string list"
  | EmbedCall EmbeddingModel string
  | StreamTextCall LanguageModel string string
  | Logged log_level log_msg

record 's world =
  pages :: "pages_row list"
  spaces :: "spaces_row list"
  page_embeddings :: "'s page_embeddings_row list"
  trace :: "effect list"

definition emit :: "effect \<Rightarrow> 's world \<Rightarrow> 's world" where
  "emit e w = w\<lparr>trace := trace w @ [e]\<rparr>"

text \<open>
  The environment service and the libraries the services call. A vector is a \<open>'v\<close>,
  the value the driver binds for it is an \<open>'s\<close>, and the operator \<open><=>\<close> of the
  store yields a \<open>'d\<close>, of which the queries use the order and \<open>1 - d\<close>.
  An embedding or completion call either returns or throws; the text stream of a
  completion is the finite list of its parts, possibly ended by a thrown value.
  An array read past its end is \<open>undefined\<close>, and a row whose vector is
  \<open>undefined\<close> is not stored: the insert throws, \<open>undefinedVector\<close> being the
  value thrown.
\<close>

record ('v, 's, 'd) env =
  getAiDriver :: string
  getAiEmbeddingModel :: string
  getAiCompletionModel :: string
  getAiEmbeddingDimension :: "int option"
  getOpenAiApiKey :: string
  getGeminiApiKey :: string
  getOllamaApiUrl :: string
  splitText :: "string \<Rightarrow> string list"
  embedMany :: "EmbeddingModel \<Rightarrow> string list \<Rightarrow> thrown + 'v list"
  embed :: "EmbeddingModel \<Rightarrow> string \<Rightarrow> thrown + 'v"
  streamText :: "LanguageModel \<Rightarrow> string \<Rightarrow> string \<Rightarrow> string list \<times> thrown option"
  toSql :: "'v option \<Rightarrow> 's"
  undefinedVector :: thrown
  cosine_distance :: "'s \<Rightarrow> 's \<Rightarrow> 'd"
  getUserSpaceIds :: "string \<Rightarrow> string list"

subsection \<open>Strings and arrays of the host language\<close>

text \<open>
  A string is the list of its code units; of the white space that \<open>trim\<close> removes,
  the code units below 256 are the six ASCII ones and the no-break space.
\<close>

definition isWhiteSpace :: "char \<Rightarrow> bool" where
  "isWhiteSpace c = (of_char c \<in> {9, 10, 11, 12, 13, 32, 160 :: nat})"

definition trim :: "string \<Rightarrow> string" where
  "trim s = rev (dropWhile isWhiteSpace (rev (dropWhile isWhiteSpace s)))"

text \<open>\<open>xs.slice(a, b)\<close> for indices that are not negative.\<close>

definition slice :: "'a list \<Rightarrow> nat \<Rightarrow> nat \<Rightarrow> 'a list" where
  "slice xs a b = take (b - a) (drop a xs)"

text \<open>\<open>xs[j]\<close>: \<open>undefined\<close> past the end.\<close>

definition at_index :: "'a list \<Rightarrow> nat \<Rightarrow> 'a option" where
  "at_index xs j = (if j < length xs then Some (xs ! j) else None)"

text \<open>\<open>!s || s.trim().length === 0\<close> on a nullable string.\<close>

definition noText :: "string option \<Rightarrow> bool" where
  "noText textContent =
     (case textContent of
        None \<Rightarrow> True
      | Some t \<Rightarrow> t = [] \<or> length (trim t) = 0)"

section \<open>Server: the embedding service\<close>

definition getEmbeddingModel :: "('v, 's, 'd) env \<Rightarrow> thrown + EmbeddingModel" where
  "getEmbeddingModel env =
     (let driver = getAiDriver env; modelName = getAiEmbeddingModel env in
      if driver = ''openai'' then
        Inr (EmbeddingModel (OpenAI (getOpenAiApiKey env)) modelName)
      else if driver = ''gemini'' then
        Inr (EmbeddingModel (GoogleGenerativeAI (getGeminiApiKey env)) modelName)
      else if driver = ''ollama'' then
        Inr (EmbeddingModel (OpenAICompatible ''ollama'' (getOllamaApiUrl env @ ''/v1'')) modelName)
      else Inl (Error (''Unsupported AI driver: '' @ driver)))"

definition presetDimensions :: "(string \<times> int) list" where
  "presetDimensions =
     [(''text-embedding-3-small'', 1536),
      (''text-embedding-3-large'', 3072),
      (''text-embedding-ada-002'', 1536),
      (''text-embedding-004'', 768)]"

text \<open>
  The dimension: the configured number if it is one and not zero, else the preset of
  the model name, else 1536. The preset table is read by its own members only.
\<close>

definition getEmbeddingDimension :: "('v, 's, 'd) env \<Rightarrow> int" where
  "getEmbeddingDimension env =
     (case getAiEmbeddingDimension env of
        Some envDimension \<Rightarrow>
          if envDimension \<noteq> 0 then envDimension
          else (case map_of presetDimensions (getAiEmbeddingModel env) of
                  Some d \<Rightarrow> d | None \<Rightarrow> 1536)
      | None \<Rightarrow>
          (case map_of presetDimensions (getAiEmbeddingModel env) of
             Some d \<Rightarrow> d | None \<Rightarrow> 1536))"

definition deleteEmbeddingsForPage :: "string \<Rightarrow> 's world \<Rightarrow> 's world" where
  "deleteEmbeddingsForPage pageId w =
     emit (SqlDeleteEmbeddingsOfPage pageId)
       (w\<lparr>page_embeddings := filter (\<lambda>pe. page_id pe \<noteq> pageId) (page_embeddings w)\<rparr>)"

definition deleteEmbeddingsForWorkspace :: "string \<Rightarrow> 's world \<Rightarrow> 's world" where
  "deleteEmbeddingsForWorkspace workspaceId w =
     emit (Logged LogInfo (DeletedWorkspaceEmbeddings workspaceId))
       (emit (SqlDeleteEmbeddingsOfWorkspace workspaceId)
          (w\<lparr>page_embeddings :=
               filter (\<lambda>pe. workspace_id pe \<noteq> workspaceId) (page_embeddings w)\<rparr>))"

text \<open>
  The row object built for a chunk of a batch that starts at chunk \<open>i\<close>, and the
  \<open>INSERT\<close> that stores it with the bound vector.
\<close>

record EmbeddingRow =
  row_pageId :: string
  row_spaceId :: string
  row_workspaceId :: string
  row_modelName :: string
  row_modelDimensions :: int
  row_chunkIndex :: nat
  row_chunkStart :: nat
  row_chunkLength :: nat
  row_metadata :: json

definition makeRow ::
  "PageForEmbedding \<Rightarrow> string \<Rightarrow> int \<Rightarrow> nat \<Rightarrow> string \<Rightarrow> nat \<Rightarrow> EmbeddingRow" where
  "makeRow page modelName modelDimensions i chunk batchIndex =
     (let chunkIndex = i + batchIndex in
      \<lparr>row_pageId = pf_id page,
       row_spaceId = pf_spaceId page,
       row_workspaceId = pf_workspaceId page,
       row_modelName = modelName,
       row_modelDimensions = modelDimensions,
       row_chunkIndex = chunkIndex,
       row_chunkStart = 0,
       row_chunkLength = length chunk,
       row_metadata = JObject [(''text'', JString chunk)]\<rparr>)"

definition insertedValues :: "EmbeddingRow \<Rightarrow> 's \<Rightarrow> 's page_embeddings_row" where
  "insertedValues row vectorStr =
     \<lparr>page_id = row_pageId row,
      space_id = row_spaceId row,
      workspace_id = row_workspaceId row,
      model_name = row_modelName row,
      model_dimensions = row_modelDimensions row,
      embedding = vectorStr,
      chunk_index = row_chunkIndex row,
      chunk_start = row_chunkStart row,
      chunk_length = row_chunkLength row,
      metadata = row_metadata row\<rparr>"

definition insertEmbedding :: "EmbeddingRow \<Rightarrow> 's \<Rightarrow> 's world \<Rightarrow> 's world" where
  "insertEmbedding row vectorStr w =
     emit (SqlInsertEmbedding (row_pageId row) (row_chunkIndex row))
       (w\<lparr>page_embeddings := page_embeddings w @ [insertedValues row vectorStr]\<rparr>)"

text \<open>
  The inner loop: \<open>for (let j = 0; j < rows.length; j++)\<close>. The rows before the first
  one without a vector are stored; at that one the loop throws.
\<close>

function insertRows ::
  "('v, 's, 'd) env \<Rightarrow> EmbeddingRow list \<Rightarrow> 'v list \<Rightarrow> nat \<Rightarrow> 's world \<Rightarrow>
   thrown option \<times> 's world" where
  "insertRows env rows embeddings j w =
     (if j < length rows then
        (let row = rows ! j
         in case at_index embeddings j of
              None \<Rightarrow> (Some (undefinedVector env), w)
            | Some v \<Rightarrow>
                insertRows env rows embeddings (j + 1)
                  (insertEmbedding row (toSql env (Some v)) w))
      else (None, w))"
  by pat_completeness auto
termination
  by (relation "measure (\<lambda>(env, rows, embeddings, j, w). length rows - j)") auto

declare insertRows.simps [simp del]

text \<open>
  The batch loop: \<open>for (let i = 0; i < chunks.length; i += EMBEDDING_BATCH_SIZE)\<close>.
  A thrown embedding call ends the loop with the rows of the earlier batches stored, a
  thrown insert with the rows stored before it.
\<close>

function embedBatches ::
  "('v, 's, 'd) env \<Rightarrow> PageForEmbedding \<Rightarrow> EmbeddingModel \<Rightarrow> string \<Rightarrow> int \<Rightarrow>
   string list \<Rightarrow> nat \<Rightarrow> 's world \<Rightarrow> thrown option \<times> 's world" where
  "embedBatches env page model modelName modelDimensions chunks i w =
     (if i < length chunks then
        (let batchChunks = slice chunks i (i + EMBEDDING_BATCH_SIZE);
             w1 = emit (EmbedManyCall model batchChunks) w
         in case embedMany env model batchChunks of
              Inl err \<Rightarrow> (Some err, w1)
            | Inr embeddings \<Rightarrow>
                (let rows = map (\<lambda>(chunk, batchIndex).
                                   makeRow page modelName modelDimensions i chunk batchIndex)
                                (zip batchChunks [0..<length batchChunks])
                 in case insertRows env rows embeddings 0 w1 of
                      (Some err, w2) \<Rightarrow> (Some err, w2)
                    | (None, w2) \<Rightarrow>
                        embedBatches env page model modelName modelDimensions chunks
                          (i + EMBEDDING_BATCH_SIZE) w2))
      else (None, w))"
  by pat_completeness auto
termination
  by (relation "measure (\<lambda>(env, page, model, modelName, modelDimensions, chunks, i, w).
                           length chunks - i)")
     (auto simp: EMBEDDING_BATCH_SIZE_def)

declare embedBatches.simps [simp del]

definition generateEmbeddingsForPage ::
  "('v, 's, 'd) env \<Rightarrow> PageForEmbedding \<Rightarrow> 's world \<Rightarrow> thrown option \<times> 's world" where
  "generateEmbeddingsForPage env page w =
     (if noText (pf_textContent page) then (None, w)
      else
        (let w1 = deleteEmbeddingsForPage (pf_id page) w;
             chunks = splitText env (the (pf_textContent page))
         in if length chunks = 0 then (None, w1)
            else
              (case getEmbeddingModel env of
                 Inl err \<Rightarrow> (Some err, w1)
               | Inr model \<Rightarrow>
                   (let modelName = getAiEmbeddingModel env;
                        modelDimensions = getEmbeddingDimension env
                    in case embedBatches env page model modelName modelDimensions chunks 0 w1 of
                         (Some err, w2) \<Rightarrow> (Some err, w2)
                       | (None, w2) \<Rightarrow>
                           (None, emit (Logged LogDebug
                                          (GeneratedEmbeddings (length chunks) (pf_id page))) w2)))))"

text \<open>
  The workspace run: the loop over the selected pages keeps the two counters and the
  world; a page whose regeneration throws is logged and the loop goes on.
\<close>

fun pagesLoop ::
  "('v, 's, 'd) env \<Rightarrow> PageForEmbedding list \<Rightarrow> nat \<Rightarrow> nat \<Rightarrow> 's world \<Rightarrow>
   nat \<times> nat \<times> 's world" where
  "pagesLoop env [] processedCount skippedCount w = (processedCount, skippedCount, w)"
| "pagesLoop env (page # rest) processedCount skippedCount w =
     (if noText (pf_textContent page) then
        pagesLoop env rest processedCount (skippedCount + 1) w
      else
        (case generateEmbeddingsForPage env page w of
           (None, w') \<Rightarrow> pagesLoop env rest (processedCount + 1) skippedCount w'
         | (Some err, w') \<Rightarrow>
             pagesLoop env rest processedCount skippedCount
               (emit (Logged LogError (FailedPage (pf_id page) (message_or_String err))) w')))"

definition selectPagesOfWorkspace :: "string \<Rightarrow> 's world \<Rightarrow> PageForEmbedding list" where
  "selectPagesOfWorkspace workspaceId w =
     map (\<lambda>p. \<lparr>pf_id = pages_id p, pf_spaceId = pages_spaceId p,
               pf_workspaceId = pages_workspaceId p, pf_textContent = pages_textContent p\<rparr>)
       (filter (\<lambda>p. pages_workspaceId p = workspaceId \<and> pages_deletedAt p = None) (pages w))"

definition generateEmbeddingsForWorkspace ::
  "('v, 's, 'd) env \<Rightarrow> string \<Rightarrow> 's world \<Rightarrow> 's world" where
  "generateEmbeddingsForWorkspace env workspaceId w =
     (let w1 = emit (Logged LogInfo (StartingGeneration workspaceId)) w;
          pgs = selectPagesOfWorkspace workspaceId w1;
          w2 = emit (Logged LogInfo (FoundPages (length pgs)))
                 (emit (SqlSelectPagesOfWorkspace workspaceId) w1)
      in case pagesLoop env pgs 0 0 w2 of
           (processedCount, skippedCount, w3) \<Rightarrow>
             emit (Logged LogInfo
                     (GenerationComplete processedCount skippedCount
                        (int (length pgs) - int processedCount - int skippedCount))) w3)"

section \<open>Server: the search service\<close>

record 'd SearchChunkResult =
  res_pageId :: string
  res_spaceId :: string
  res_chunkIndex :: nat
  res_chunkText :: "string option"
  res_distance :: 'd

record 'd SourceResult =
  src_pageId :: string
  title :: string
  slugId :: string
  spaceSlug :: string
  similarity :: 'd
  src_distance :: 'd
  src_chunkIndex :: nat
  excerpt :: string

definition getLanguageModel :: "('v, 's, 'd) env \<Rightarrow> thrown + LanguageModel" where
  "getLanguageModel env =
     (let driver = getAiDriver env; modelName = getAiCompletionModel env in
      if driver = ''openai'' then
        Inr (LanguageModel (OpenAI (getOpenAiApiKey env)) modelName)
      else if driver = ''gemini'' then
        Inr (LanguageModel (GoogleGenerativeAI (getGeminiApiKey env)) modelName)
      else if driver = ''ollama'' then
        Inr (LanguageModel (OpenAICompatible ''ollama'' (getOllamaApiUrl env @ ''/v1'')) modelName)
      else Inl (Error (''Unsupported AI driver: '' @ driver)))"

text \<open>\<open>if (spaceId)\<close> on an optional string: \<open>undefined\<close> and the empty string are falsy.\<close>

definition truthy :: "string option \<Rightarrow> bool" where
  "truthy s = (case s of None \<Rightarrow> False | Some t \<Rightarrow> t \<noteq> [])"

fun join :: "string \<Rightarrow> string list \<Rightarrow> string" where
  "join sep [] = []"
| "join sep [x] = x"
| "join sep (x # y # ys) = x @ sep @ join sep (y # ys)"

definition pgArrayLiteral :: "string list \<Rightarrow> string" where
  "pgArrayLiteral accessibleSpaceIds = ''{'' @ join '','' accessibleSpaceIds @ ''}''"

text \<open>
  How the store reads the bound literal under the cast to an array: the text between
  the braces is cut at its commas, and nothing between the braces is the empty array.
  The elements are taken unquoted, as identifiers are written, and are compared with
  the \<open>space_id\<close> column as strings: the cast of each element to a UUID, which
  accepts several spellings of one identifier and throws on other text, is left out.
\<close>

fun splitOn :: "char \<Rightarrow> string \<Rightarrow> string list" where
  "splitOn c [] = [[]]"
| "splitOn c (x # xs) =
     (if x = c then [] # splitOn c xs
      else (case splitOn c xs of
              y # ys \<Rightarrow> (x # y) # ys
            | [] \<Rightarrow> [[x]]))"

definition arrayElements :: "string \<Rightarrow> string list" where
  "arrayElements literal =
     (let body = butlast (tl literal) in if body = [] then [] else splitOn CHR '','' body)"

text \<open>
  The similarity query: the rows of the workspace whose space is an element of the
  array, ordered by the distance to the query vector, the first \<open>TOP_K\<close> of them.
  Rows at the same distance are kept in table order, which the store does not promise.
\<close>

definition selectSimilar ::
  "('v, 's, 'd::linorder) env \<Rightarrow> 's \<Rightarrow> string \<Rightarrow> string \<Rightarrow> 's world \<Rightarrow> 'd SearchChunkResult list" where
  "selectSimilar env vectorStr workspaceId literal w =
     map (\<lambda>pe. \<lparr>res_pageId = page_id pe,
                res_spaceId = space_id pe,
                res_chunkIndex = chunk_index pe,
                res_chunkText = json_text_field (metadata pe) ''text'',
                res_distance = cosine_distance env (embedding pe) vectorStr\<rparr>)
       (take TOP_K
          (sort_key (\<lambda>pe. cosine_distance env (embedding pe) vectorStr)
             (filter (\<lambda>pe. workspace_id pe = workspaceId
                           \<and> space_id pe \<in> set (arrayElements literal))
                (page_embeddings w))))"

definition findSimilarChunks ::
  "('v, 's, 'd::linorder) env \<Rightarrow> 'v \<Rightarrow> string \<Rightarrow> string \<Rightarrow> string option \<Rightarrow> 's world \<Rightarrow>
   'd SearchChunkResult list \<times> 's world" where
  "findSimilarChunks env queryVector workspaceId userId spaceId w =
     (let vectorStr = toSql env (Some queryVector);
          (accessibleSpaceIds, w1) =
            (if truthy spaceId then ([the spaceId], w)
             else (getUserSpaceIds env userId, emit (SqlSelectUserSpaceIds userId) w))
      in if length accessibleSpaceIds = 0 then ([], w1)
         else
           (let literal = pgArrayLiteral accessibleSpaceIds
            in (selectSimilar env vectorStr workspaceId literal w1,
                emit (SqlSelectSimilar workspaceId literal) w1)))"

text \<open>
  \<open>buildSources\<close>: the page ids without repetition, in order of first occurrence; the
  join of pages and spaces; a \<open>Map\<close> in which a later pair replaces an earlier one with
  the same key; chunks without a page are dropped.
\<close>

definition buildSources ::
  "('d::{one,minus}) SearchChunkResult list \<Rightarrow> 's world \<Rightarrow> 'd SourceResult list \<times> 's world" where
  "buildSources chunks w =
     (if length chunks = 0 then ([], w)
      else
        (let pageIds = rev (remdups (rev (map res_pageId chunks)));
             joined = concat (map (\<lambda>p. map (\<lambda>sp. (p, sp))
                                          (filter (\<lambda>sp. spaces_id sp = pages_spaceId p) (spaces w)))
                                (filter (\<lambda>p. pages_id p \<in> set pageIds) (pages w)));
             pageMap = map_of (rev (map (\<lambda>(p, sp). (pages_id p, (p, sp))) joined))
         in (concat (map (\<lambda>chunk.
                       case pageMap (res_pageId chunk) of
                         None \<Rightarrow> []
                       | Some (p, sp) \<Rightarrow>
                           [\<lparr>src_pageId = res_pageId chunk,
                             title = (case pages_title p of
                                        None \<Rightarrow> ''Untitled''
                                      | Some t \<Rightarrow> if t = [] then ''Untitled'' else t),
                             slugId = pages_slugId p,
                             spaceSlug = spaces_slug sp,
                             similarity = 1 - res_distance chunk,
                             src_distance = res_distance chunk,
                             src_chunkIndex = res_chunkIndex chunk,
                             excerpt = take 200 (case res_chunkText chunk of None \<Rightarrow> [] | Some t \<Rightarrow> t)\<rparr>])
                    chunks),
             emit (SqlSelectPagesByIds pageIds) w)))"

text \<open>The decimal numeral that a template literal prints for a natural number.\<close>

definition decimalDigit :: "nat \<Rightarrow> char" where
  "decimalDigit d = ''0123456789'' ! d"

fun string_of_nat :: "nat \<Rightarrow> string" where
  "string_of_nat n =
     (if 10 \<le> n then string_of_nat (n div 10) @ [decimalDigit (n mod 10)]
      else [decimalDigit n])"

declare string_of_nat.simps [simp del]

definition buildSystemPrompt :: "'d SearchChunkResult list \<Rightarrow> string" where
  "buildSystemPrompt chunks =
     (let contextBlock =
            join [CHR 0x0A, CHR 0x0A]
              (map (\<lambda>(c, i). ''['' @ string_of_nat (i + 1) @ ''] ''
                              @ (case res_chunkText c of None \<Rightarrow> ''null'' | Some t \<Rightarrow> t))
                   (zip chunks [0..<length chunks]))
      in join [CHR 0x0A]
           [''You are a helpful AI assistant that answers questions based on the user'' @ [CHR 0x27]
              @ ''s workspace documents.'',
            ''Use ONLY the following context to answer. If the context does not contain enough information, say so clearly.'',
            ''Keep your answer concise and well-structured. Use markdown formatting where appropriate.'',
            [],
            ''--- Context ---'',
            contextBlock,
            ''--- End Context ---''])"

text \<open>
  What the generator yields and the controller writes: a line
  \<open>data: <JSON.stringify(payload)>\<close> for one of three payload objects, kept by the
  payload, or the line \<open>data: [DONE]\<close>.
\<close>

datatype 'd payload =
    Content string
  | Sources "'d SourceResult list"
  | ErrorMessage string

datatype 'd sse = Data "'d payload" | Done

text \<open>
  \<open>askQuestion\<close>: the lines yielded, in order, the value thrown if the generator
  threw, and the world after it.
\<close>

definition askQuestion ::
  "('v, 's, 'd::{linorder,one,minus}) env \<Rightarrow> string \<Rightarrow> string \<Rightarrow> string \<Rightarrow> string option \<Rightarrow>
   's world \<Rightarrow> 'd sse list \<times> thrown option \<times> 's world" where
  "askQuestion env query workspaceId userId spaceId w =
     (case getEmbeddingModel env of
        Inl err \<Rightarrow> ([], Some err, w)
      | Inr embeddingModel \<Rightarrow>
          (let w1 = emit (EmbedCall embeddingModel query) w
           in case embed env embeddingModel query of
                Inl err \<Rightarrow> ([], Some err, w1)
              | Inr queryVector \<Rightarrow>
                  (case findSimilarChunks env queryVector workspaceId userId spaceId w1 of
                     (chunks, w2) \<Rightarrow>
                       if length chunks = 0 then
                         ([Data (Content ''No relevant content found in your workspace for this query.''),
                           Data (Sources []),
                           Done], None, w2)
                       else
                         (let systemPrompt = buildSystemPrompt chunks
                          in case getLanguageModel env of
                               Inl err \<Rightarrow> ([], Some err, w2)
                             | Inr languageModel \<Rightarrow>
                                 (let w3 = emit (StreamTextCall languageModel systemPrompt query) w2
                                  in case streamText env languageModel systemPrompt query of
                                       (textStream, failure) \<Rightarrow>
                                         (let yielded = map (\<lambda>textPart. Data (Content textPart)) textStream
                                          in case failure of
                                               Some err \<Rightarrow> (yielded, Some err, w3)
                                             | None \<Rightarrow>
                                                 (case buildSources chunks w3 of
                                                    (sources, w4) \<Rightarrow>
                                                      (yielded @ [Data (Sources sources), Done],
                                                       None, w4))))))))"

section \<open>Server: the controller\<close>

record AiSearchDTO =
  dto_query :: string
  dto_spaceId :: "string option"

record User =
  user_id :: string

record Workspace =
  workspace_id_of :: string

text \<open>The raw response: the head written first, the lines written, and whether it was ended.\<close>

record 'd reply =
  statusCode :: nat
  headers :: "(string \<times> string) list"
  written :: "'d sse list"
  ended :: bool

definition ask ::
  "('v, 's, 'd::{linorder,one,minus}) env \<Rightarrow> AiSearchDTO \<Rightarrow> 'a User_scheme \<Rightarrow> 'b Workspace_scheme \<Rightarrow>
   's world \<Rightarrow> 'd reply \<times> 's world" where
  "ask env dto authUser authWorkspace w =
     (let res = \<lparr>statusCode = 200,
                 headers = [(''Content-Type'', ''text/event-stream''),
                            (''Cache-Control'', ''no-cache''),
                            (''Connection'', ''keep-alive'')],
                 written = [],
                 ended = False\<rparr>
      in case askQuestion env (dto_query dto) (workspace_id_of authWorkspace) (user_id authUser)
                (dto_spaceId dto) w of
           (chunks, None, w1) \<Rightarrow>
             (res\<lparr>written := written res @ chunks, ended := True\<rparr>, w1)
         | (chunks, Some err, w1) \<Rightarrow>
             (let message = message_or ''An unexpected error occurred'' err
              in (res\<lparr>written := written res @ chunks @ [Data (ErrorMessage message)],
                      ended := True\<rparr>,
                  emit (Logged LogError (AiSearchFailed message)) w1)))"

section \<open>Describing a run\<close>

text \<open>
  The definitions of this section are not code of the services: they name what the
  properties below talk about. The chunks of a page fall into \<open>batchCount\<close> batches,
  \<open>batchNo chunks b\<close> being the \<open>b\<close>-th of them, and \<open>storedChunk\<close> is the row a run
  stores for chunk \<open>k\<close>: the vector is the one the embedding call for the chunk's batch
  returned at the chunk's position in the batch.
\<close>

definition batchCount :: "nat \<Rightarrow> nat" where
  "batchCount n = (n + (EMBEDDING_BATCH_SIZE - 1)) div EMBEDDING_BATCH_SIZE"

definition batchNo :: "string list \<Rightarrow> nat \<Rightarrow> string list" where
  "batchNo chunks b =
     slice chunks (b * EMBEDDING_BATCH_SIZE) (b * EMBEDDING_BATCH_SIZE + EMBEDDING_BATCH_SIZE)"

definition storedChunk ::
  "('v, 's, 'd) env \<Rightarrow> PageForEmbedding \<Rightarrow> EmbeddingModel \<Rightarrow> string \<Rightarrow> int \<Rightarrow>
   string list \<Rightarrow> nat \<Rightarrow> 's page_embeddings_row" where
  "storedChunk env page model modelName modelDimensions chunks k =
     \<lparr>page_id = pf_id page,
      space_id = pf_spaceId page,
      workspace_id = pf_workspaceId page,
      model_name = modelName,
      model_dimensions = modelDimensions,
      embedding = toSql env
        (case embedMany env model (batchNo chunks (k div EMBEDDING_BATCH_SIZE)) of
           Inr vs \<Rightarrow> at_index vs (k mod EMBEDDING_BATCH_SIZE)
         | Inl _ \<Rightarrow> None),
      chunk_index = k,
      chunk_start = 0,
      chunk_length = length (chunks ! k),
      metadata = JObject [(''text'', JString (chunks ! k))]\<rparr>"

text \<open>Projections of a trace: one kind of call each, in the order of the trace.\<close>

fun embedManyCall :: "effect \<Rightarrow> (EmbeddingModel \<times> string list) list" where
  "embedManyCall (EmbedManyCall model vals) = [(model, vals)]"
| "embedManyCall _ = []"

definition embedManyCalls :: "effect list \<Rightarrow> (EmbeddingModel \<times> string list) list" where
  "embedManyCalls tr = concat (map embedManyCall tr)"

fun pageDeletion :: "effect \<Rightarrow> string list" where
  "pageDeletion (SqlDeleteEmbeddingsOfPage pageId) = [pageId]"
| "pageDeletion _ = []"

definition pageDeletions :: "effect list \<Rightarrow> string list" where
  "pageDeletions tr = concat (map pageDeletion tr)"

fun loggedFailure :: "effect \<Rightarrow> (string \<times> string) list" where
  "loggedFailure (Logged LogError (FailedPage pageId msg)) = [(pageId, msg)]"
| "loggedFailure _ = []"

definition loggedFailures :: "effect list \<Rightarrow> (string \<times> string) list" where
  "loggedFailures tr = concat (map loggedFailure tr)"

fun similarityQuery :: "effect \<Rightarrow> (string \<times> string) list" where
  "similarityQuery (SqlSelectSimilar workspaceId literal) = [(workspaceId, literal)]"
| "similarityQuery _ = []"

definition similarityQueries :: "effect list \<Rightarrow> (string \<times> string) list" where
  "similarityQueries tr = concat (map similarityQuery tr)"

definition regenerationOutcome :: "('v, 's, 'd) env \<Rightarrow> PageForEmbedding \<Rightarrow> thrown option" where
  "regenerationOutcome env page =
     fst (generateEmbeddingsForPage env page
            \<lparr>pages = [], spaces = [], page_embeddings = [], trace = []\<rparr>)"

text \<open>The pages of a run that are regenerated, and the failures among them.\<close>

definition attemptedPages :: "PageForEmbedding list \<Rightarrow> string list" where
  "attemptedPages pgs = map pf_id (filter (\<lambda>p. \<not> noText (pf_textContent p)) pgs)"

definition failedPages :: "('v, 's, 'd) env \<Rightarrow> PageForEmbedding list \<Rightarrow> (string \<times> string) list" where
  "failedPages env pgs =
     concat (map (\<lambda>p. if noText (pf_textContent p) then []
                       else (case regenerationOutcome env p of
                               None \<Rightarrow> []
                             | Some err \<Rightarrow> [(pf_id p, message_or_String err)])) pgs)"


section \<open>Example data\<close>

text \<open>
  A configuration and a store on which the properties are instantiated: the splitter
  cuts a text into its characters, the embedding of a value is its length, and the
  distance of two one-dimensional vectors is the absolute difference.
\<close>

definition demoEnv :: "(real list, real list option, real) env" where
  "demoEnv =
     \<lparr>getAiDriver = ''openai'',
      getAiEmbeddingModel = ''text-embedding-3-small'',
      getAiCompletionModel = ''gpt-4o-mini'',
      getAiEmbeddingDimension = None,
      getOpenAiApiKey = ''key'',
      getGeminiApiKey = [],
      getOllamaApiUrl = [],
      splitText = (\<lambda>t. map (\<lambda>c. [c]) t),
      embedMany = (\<lambda>model vals. Inr (map (\<lambda>v. [real (length v)]) vals)),
      embed = (\<lambda>model v. Inr [0]),
      streamText = (\<lambda>model system prompt. ([''Hello'', '' world''], None)),
      toSql = (\<lambda>v. v),
      undefinedVector = Error ''expected array'',
      cosine_distance = (\<lambda>a b. case (a, b) of (Some [x], Some [y]) \<Rightarrow> \<bar>x - y\<bar> | _ \<Rightarrow> 2),
      getUserSpaceIds = (\<lambda>userId. if userId = ''alice'' then [''A'', ''B''] else [])\<rparr>"

definition demoPage :: PageForEmbedding where
  "demoPage = \<lparr>pf_id = ''p1'', pf_spaceId = ''A'', pf_workspaceId = ''w1'',
                pf_textContent = Some ''abc''\<rparr>"

definition storedWorld :: "real list option world" where
  "storedWorld =
     \<lparr>pages = [], spaces = [],
      page_embeddings =
        [\<lparr>page_id = ''p1'', space_id = ''A'', workspace_id = ''w1'',
          model_name = ''text-embedding-3-small'', model_dimensions = 1536,
          embedding = Some [1], chunk_index = 0, chunk_start = 0, chunk_length = 1,
          metadata = JObject [(''text'', JString ''z'')]\<rparr>],
      trace = []\<rparr>"

definition longPage :: PageForEmbedding where
  "longPage = \<lparr>pf_id = ''p2'', pf_spaceId = ''A'', pf_workspaceId = ''w1'',
                pf_textContent = Some (replicate 250 CHR ''x'')\<rparr>"

text \<open>
  A backend that throws on a batch holding \<open>!\<close> and answers a batch holding \<open>?\<close>
  with one vector too few.
\<close>

definition failingEnv :: "(real list, real list option, real) env" where
  "failingEnv =
     demoEnv\<lparr>embedMany := (\<lambda>model vals.
        if ''!'' \<in> set vals then Inl (Error ''rate limit'')
        else if ''?'' \<in> set vals then Inr (map (\<lambda>v. [real (length v)]) (butlast vals))
        else Inr (map (\<lambda>v. [real (length v)]) vals))\<rparr>"



definition pagesWorld :: "real list option world" where
  "pagesWorld =
     \<lparr>pages =
        [\<lparr>pages_id = ''pA'', pages_title = Some ''First'', pages_slugId = ''first'',
          pages_spaceId = ''A'', pages_workspaceId = ''w1'', pages_textContent = Some ''!'',
          pages_deletedAt = None\<rparr>,
         \<lparr>pages_id = ''pB'', pages_title = Some ''Second'', pages_slugId = ''second'',
          pages_spaceId = ''A'', pages_workspaceId = ''w1'', pages_textContent = Some ''?'',
          pages_deletedAt = None\<rparr>,
         \<lparr>pages_id = ''pC'', pages_title = Some ''Third'', pages_slugId = ''third'',
          pages_spaceId = ''A'', pages_workspaceId = ''w1'', pages_textContent = Some ''ab'',
          pages_deletedAt = None\<rparr>,
         \<lparr>pages_id = ''pD'', pages_title = Some ''Fourth'', pages_slugId = ''fourth'',
          pages_spaceId = ''A'', pages_workspaceId = ''w1'', pages_textContent = Some '' '',
          pages_deletedAt = None\<rparr>],
      spaces = [\<lparr>spaces_id = ''A'', spaces_slug = ''space-a''\<rparr>],
      page_embeddings = [],
      trace = []\<rparr>"

definition searchWorld :: "real list option world" where
  "searchWorld =
     \<lparr>pages =
        [\<lparr>pages_id = ''pA'', pages_title = Some ''First'', pages_slugId = ''first'',
          pages_spaceId = ''A'', pages_workspaceId = ''w1'', pages_textContent = Some ''alpha'',
          pages_deletedAt = None\<rparr>,
         \<lparr>pages_id = ''pC'', pages_title = None, pages_slugId = ''third'',
          pages_spaceId = ''C'', pages_workspaceId = ''w1'', pages_textContent = Some ''gamma'',
          pages_deletedAt = None\<rparr>],
      spaces = [\<lparr>spaces_id = ''A'', spaces_slug = ''space-a''\<rparr>,
                \<lparr>spaces_id = ''C'', spaces_slug = ''space-c''\<rparr>],
      page_embeddings =
        [\<lparr>page_id = ''pA'', space_id = ''A'', workspace_id = ''w1'',
          model_name = ''text-embedding-3-small'', model_dimensions = 1536,
          embedding = Some [1 / 10], chunk_index = 0, chunk_start = 0, chunk_length = 5,
          metadata = JObject [(''text'', JString ''alpha'')]\<rparr>,
         \<lparr>page_id = ''pC'', space_id = ''C'', workspace_id = ''w1'',
          model_name = ''text-embedding-3-small'', model_dimensions = 1536,
          embedding = Some [1 / 100], chunk_index = 0, chunk_start = 0, chunk_length = 5,
          metadata = JObject [(''text'', JString ''gamma'')]\<rparr>],
      trace = []\<rparr>"

definition streamFailEnv :: "(real list, real list option, real) env" where
  "streamFailEnv =
     demoEnv\<lparr>streamText := (\<lambda>model system prompt. ([''Hel''], Some (Error ''boom'')))\<rparr>"

definition demoDto :: AiSearchDTO where
  "demoDto = \<lparr>dto_query = ''what?'', dto_spaceId = None\<rparr>"

definition alice :: User where
  "alice = \<lparr>user_id = ''alice''\<rparr>"

definition demoWorkspace :: Workspace where
  "demoWorkspace = \<lparr>workspace_id_of = ''w1''\<rparr>"

section \<open>Properties of the embedding service\<close>

subsection \<open>The insert loop and the batch loop\<close>

lemma insertRows_eq:
  "j \<le> min (length rows) (length embeddings) \<Longrightarrow>
   insertRows env rows embeddings j w
   = (if length rows \<le> length embeddings then None else Some (undefinedVector env),
      w\<lparr>page_embeddings := page_embeddings w @
           map (\<lambda>k. insertedValues (rows ! k) (toSql env (at_index embeddings k)))
             [j..<min (length rows) (length embeddings)],
         trace := trace w @
           map (\<lambda>k. SqlInsertEmbedding (row_pageId (rows ! k)) (row_chunkIndex (rows ! k)))
             [j..<min (length rows) (length embeddings)]\<rparr>)"
proof (induction env rows embeddings j w rule: insertRows.induct)
  case (1 env rows embeddings j w)
  note unfold = insertRows.simps [of env rows embeddings j w]
  let ?n = "min (length rows) (length embeddings)"
  show ?case
  proof (cases "j < ?n")
    case True
    then have at: "at_index embeddings j = Some (embeddings ! j)" and j: "j < length rows"
      by (simp_all add: at_index_def)
    from True have step: "j + 1 \<le> ?n" by simp
    have up: "[j..<?n] = j # [j + 1..<?n]"
      using True by (simp add: upt_conv_Cons)
    show ?thesis
      using "1.IH" [OF j refl at step]
      by (simp add: unfold j at up insertEmbedding_def emit_def Let_def)
  next
    case False
    with "1.prems" have eq: "j = ?n" by arith
    show ?thesis
    proof (cases "length rows \<le> length embeddings")
      case True
      with eq have "\<not> j < length rows" by simp
      then have "insertRows env rows embeddings j w = (None, w)" by (simp add: unfold)
      with True eq show ?thesis by simp
    next
      case short: False
      with eq have "j < length rows" and "at_index embeddings j = None"
        by (simp_all add: at_index_def)
      then have "insertRows env rows embeddings j w = (Some (undefinedVector env), w)"
        by (simp add: unfold Let_def)
      with short eq show ?thesis by simp
    qed
  qed
qed

lemma embedManyCalls_append [simp]:
  "embedManyCalls (a @ b) = embedManyCalls a @ embedManyCalls b"
  by (simp add: embedManyCalls_def)

lemma embedManyCalls_simps [simp]:
  "embedManyCalls [] = []"
  "embedManyCalls (e # tr) = embedManyCall e @ embedManyCalls tr"
  by (simp_all add: embedManyCalls_def)

lemma embedManyCalls_inserts:
  "embedManyCalls (map (\<lambda>j. SqlInsertEmbedding (f j) (g j)) js) = []"
  by (induction js) simp_all

lemma insertRows_embedManyCalls:
  "embedManyCalls (trace (snd (insertRows env rows embeddings 0 w)))
   = embedManyCalls (trace w)"
  by (simp add: insertRows_eq embedManyCalls_inserts)

lemma batch_position:
  assumes "EMBEDDING_BATCH_SIZE dvd i" and "j < EMBEDDING_BATCH_SIZE"
  shows "(i + j) div EMBEDDING_BATCH_SIZE = i div EMBEDDING_BATCH_SIZE"
    and "(i + j) mod EMBEDDING_BATCH_SIZE = j"
    and "i div EMBEDDING_BATCH_SIZE * EMBEDDING_BATCH_SIZE = i"
proof -
  from assms(1) obtain q where q: "i = 100 * q"
    unfolding EMBEDDING_BATCH_SIZE_def by (elim dvdE)
  have j: "j < 100" using assms(2) by (simp add: EMBEDDING_BATCH_SIZE_def)
  show "(i + j) div EMBEDDING_BATCH_SIZE = i div EMBEDDING_BATCH_SIZE"
    using j by (simp add: q EMBEDDING_BATCH_SIZE_def)
  show "(i + j) mod EMBEDDING_BATCH_SIZE = j"
    using j by (simp add: q EMBEDDING_BATCH_SIZE_def)
  show "i div EMBEDDING_BATCH_SIZE * EMBEDDING_BATCH_SIZE = i"
    by (simp add: q EMBEDDING_BATCH_SIZE_def)
qed

lemma length_slice_batch:
  "i < length chunks \<Longrightarrow>
   length (slice chunks i (i + EMBEDDING_BATCH_SIZE)) = min (i + EMBEDDING_BATCH_SIZE) (length chunks) - i"
  by (auto simp: slice_def)

lemma nth_slice_batch:
  "j < length (slice chunks i (i + EMBEDDING_BATCH_SIZE)) \<Longrightarrow>
   slice chunks i (i + EMBEDDING_BATCH_SIZE) ! j = chunks ! (i + j)"
  by (auto simp: slice_def)

text \<open>The rows of a batch that starts at chunk \<open>i\<close>, as far as they are stored.\<close>

lemma batch_rows:
  assumes dvd: "EMBEDDING_BATCH_SIZE dvd i" and lt: "i < length chunks"
    and emb: "embedMany env model (slice chunks i (i + EMBEDDING_BATCH_SIZE)) = Inr embeddings"
    and rows: "rows = map (\<lambda>(chunk, batchIndex). makeRow page modelName modelDimensions i chunk batchIndex)
                        (zip (slice chunks i (i + EMBEDDING_BATCH_SIZE))
                             [0..<length (slice chunks i (i + EMBEDDING_BATCH_SIZE))])"
    and m: "m \<le> length rows"
  shows "map (\<lambda>j. insertedValues (rows ! j) (toSql env (at_index embeddings j))) [0..<m]
         = map (storedChunk env page model modelName modelDimensions chunks) [i..<i + m]"
proof (rule nth_equalityI)
  let ?b = "slice chunks i (i + EMBEDDING_BATCH_SIZE)"
  have len: "length rows = length ?b" by (simp add: rows)
  show "length (map (\<lambda>j. insertedValues (rows ! j) (toSql env (at_index embeddings j))) [0..<m])
        = length (map (storedChunk env page model modelName modelDimensions chunks) [i..<i + m])"
    by simp
  fix j
  assume "j < length (map (\<lambda>j. insertedValues (rows ! j) (toSql env (at_index embeddings j))) [0..<m])"
  then have jm: "j < m" by simp
  with m have j: "j < length ?b" by (simp add: len)
  have jb: "j < EMBEDDING_BATCH_SIZE"
    using j by (simp add: slice_def)
  note pos = batch_position [OF dvd jb]
  have bn: "batchNo chunks (i div EMBEDDING_BATCH_SIZE) = ?b"
    by (simp add: batchNo_def pos(3))
  have row: "rows ! j = makeRow page modelName modelDimensions i (chunks ! (i + j)) j"
    using j by (simp add: rows nth_slice_batch)
  have "insertedValues (rows ! j) (toSql env (at_index embeddings j))
        = storedChunk env page model modelName modelDimensions chunks (i + j)"
    by (simp add: row insertedValues_def makeRow_def storedChunk_def pos(1,2) bn emb)
  then show "map (\<lambda>j. insertedValues (rows ! j) (toSql env (at_index embeddings j))) [0..<m] ! j
        = map (storedChunk env page model modelName modelDimensions chunks) [i..<i + m] ! j"
    using jm by simp
qed

lemma upt_batch_split:
  "i < n \<Longrightarrow> [i..<n] = [i..<min (i + b) n] @ [i + b..<n]"
proof (cases "i + b \<le> n")
  case True
  then obtain d where d: "n = (i + b) + d"
    using le_Suc_ex by blast
  show ?thesis
    using upt_add_eq_append [of i "i + b" d] by (simp add: d)
next
  case False
  then show ?thesis by (simp add: min_def)
qed

lemma embedBatches_rows:
  "EMBEDDING_BATCH_SIZE dvd i \<Longrightarrow>
   embedBatches env page model modelName modelDimensions chunks i w = (r, w') \<Longrightarrow>
   \<exists>M\<le>length chunks.
     page_embeddings w' = page_embeddings w @
       map (storedChunk env page model modelName modelDimensions chunks) [i..<M]
     \<and> (r = None \<longrightarrow> M = length chunks)"
proof (induction env page model modelName modelDimensions chunks i w rule: embedBatches.induct)
  case (1 env page model modelName modelDimensions chunks i w)
  note unfold = embedBatches.simps [of env page model modelName modelDimensions chunks i w]
  let ?sc = "storedChunk env page model modelName modelDimensions chunks"
  show ?case
  proof (cases "i < length chunks")
    case False
    with "1.prems" have "w' = w" and "r = None" by (simp_all add: unfold)
    with False show ?thesis by (intro exI [of _ "length chunks"]) simp
  next
    case True
    let ?b = "slice chunks i (i + EMBEDDING_BATCH_SIZE)"
    let ?w1 = "emit (EmbedManyCall model ?b) w"
    show ?thesis
    proof (cases "embedMany env model ?b")
      case (Inl err)
      with "1.prems"(2) True have "w' = ?w1" by (simp add: unfold Let_def)
      then have "page_embeddings w' = page_embeddings w @ map ?sc [i..<i]"
        by (simp add: emit_def)
      moreover from Inl "1.prems"(2) True have "r \<noteq> None" by (auto simp: unfold Let_def)
      ultimately show ?thesis using True by (intro exI [of _ i]) simp
    next
      case (Inr embeddings)
      let ?rows = "map (\<lambda>(chunk, batchIndex). makeRow page modelName modelDimensions i chunk batchIndex)
                     (zip ?b [0..<length ?b])"
      let ?n = "min (length ?rows) (length embeddings)"
      obtain r2 w2 where ins: "insertRows env ?rows embeddings 0 ?w1 = (r2, w2)"
        by (cases "insertRows env ?rows embeddings 0 ?w1") blast
      have lenr: "length ?rows = min (i + EMBEDDING_BATCH_SIZE) (length chunks) - i"
        using True by (simp add: length_slice_batch)
      have r2w2: "r2 = fst (insertRows env ?rows embeddings 0 ?w1)"
                 "w2 = snd (insertRows env ?rows embeddings 0 ?w1)"
        by (simp_all add: ins)
      have r2: "r2 = (if length ?rows \<le> length embeddings then None
                       else Some (undefinedVector env))"
        unfolding r2w2 by (simp add: insertRows_eq)
      have stored: "page_embeddings w2 = page_embeddings w @
              map (\<lambda>k. insertedValues (?rows ! k) (toSql env (at_index embeddings k))) [0..<?n]"
        unfolding r2w2 by (simp add: insertRows_eq emit_def)
      have first: "page_embeddings w2 = page_embeddings w @ map ?sc [i..<i + ?n]"
        unfolding stored
        using batch_rows [OF "1.prems"(1) True Inr refl, of ?n page modelName modelDimensions]
        by simp
      show ?thesis
      proof (cases r2)
        case (Some err)
        with "1.prems"(2) True Inr ins have "w' = w2" and "r \<noteq> None"
          by (auto simp: unfold Let_def)
        moreover have "?n \<le> length ?rows" by simp
        then have "i + ?n \<le> length chunks"
          using True unfolding lenr by arith
        ultimately show ?thesis
          using first by (intro exI [of _ "i + ?n"]) auto
      next
        case None
        with r2 have full: "?n = length ?rows" by (simp split: if_splits)
        have run: "embedBatches env page model modelName modelDimensions chunks
                     (i + EMBEDDING_BATCH_SIZE) w2 = (r, w')"
          using "1.prems"(2) True Inr ins None by (simp add: unfold Let_def)
        have dvd': "EMBEDDING_BATCH_SIZE dvd i + EMBEDDING_BATCH_SIZE"
          using "1.prems"(1) by simp
        from "1.IH" [OF True refl refl Inr refl ins [symmetric] _ dvd' run] None
        obtain M' where M': "M' \<le> length chunks"
          and rest: "page_embeddings w' = page_embeddings w2 @ map ?sc [i + EMBEDDING_BATCH_SIZE..<M']"
          and fullrun: "r = None \<longrightarrow> M' = length chunks"
          by blast
        have first': "page_embeddings w2 = page_embeddings w @
                map ?sc [i..<min (i + EMBEDDING_BATCH_SIZE) (length chunks)]"
          using first full lenr True by (simp add: min_def split: if_splits)
        show ?thesis
        proof (cases "i + EMBEDDING_BATCH_SIZE \<le> M'")
          case le: True
          then have "i < M'" by (simp add: EMBEDDING_BATCH_SIZE_def)
          from upt_batch_split [OF this, of EMBEDDING_BATCH_SIZE] le M'
          have "[i..<M'] = [i..<min (i + EMBEDDING_BATCH_SIZE) (length chunks)]
                  @ [i + EMBEDDING_BATCH_SIZE..<M']"
            by (simp add: min_def)
          with rest first' have "page_embeddings w' = page_embeddings w @ map ?sc [i..<M']"
            by simp
          with M' fullrun show ?thesis by blast
        next
          case gt: False
          then have "[i + EMBEDDING_BATCH_SIZE..<M'] = []" by simp
          with rest first' have "page_embeddings w' = page_embeddings w @
                map ?sc [i..<min (i + EMBEDDING_BATCH_SIZE) (length chunks)]"
            by simp
          moreover have "r = None \<longrightarrow> min (i + EMBEDDING_BATCH_SIZE) (length chunks) = length chunks"
            using fullrun gt by auto
          ultimately show ?thesis
            by (intro exI [of _ "min (i + EMBEDDING_BATCH_SIZE) (length chunks)"]) simp
        qed
      qed
    qed
  qed
qed

lemma batch_arith:
  assumes "EMBEDDING_BATCH_SIZE dvd i"
  shows "(i + EMBEDDING_BATCH_SIZE) div EMBEDDING_BATCH_SIZE = Suc (i div EMBEDDING_BATCH_SIZE)"
    and "i div EMBEDDING_BATCH_SIZE * EMBEDDING_BATCH_SIZE = i"
    and "i < n \<longleftrightarrow> i div EMBEDDING_BATCH_SIZE < batchCount n"
proof -
  from assms obtain q where q: "i = 100 * q"
    unfolding EMBEDDING_BATCH_SIZE_def by (elim dvdE)
  show "(i + EMBEDDING_BATCH_SIZE) div EMBEDDING_BATCH_SIZE = Suc (i div EMBEDDING_BATCH_SIZE)"
    by (simp add: q EMBEDDING_BATCH_SIZE_def)
  show "i div EMBEDDING_BATCH_SIZE * EMBEDDING_BATCH_SIZE = i"
    by (simp add: q EMBEDDING_BATCH_SIZE_def)
  show "i < n \<longleftrightarrow> i div EMBEDDING_BATCH_SIZE < batchCount n"
    unfolding q EMBEDDING_BATCH_SIZE_def batchCount_def by simp linarith
qed

lemma embedBatches_trace:
  "EMBEDDING_BATCH_SIZE dvd i \<Longrightarrow>
   embedBatches env page model modelName modelDimensions chunks i w = (r, w') \<Longrightarrow>
   \<exists>B\<le>batchCount (length chunks).
     embedManyCalls (trace w') = embedManyCalls (trace w) @
       map (\<lambda>b. (model, batchNo chunks b)) [i div EMBEDDING_BATCH_SIZE..<B]
     \<and> (r = None \<longrightarrow> B = batchCount (length chunks))"
proof (induction env page model modelName modelDimensions chunks i w rule: embedBatches.induct)
  case (1 env page model modelName modelDimensions chunks i w)
  note unfold = embedBatches.simps [of env page model modelName modelDimensions chunks i w]
  let ?q = "i div EMBEDDING_BATCH_SIZE"
  let ?call = "\<lambda>b. (model, batchNo chunks b)"
  note ar = batch_arith [OF "1.prems"(1)]
  show ?case
  proof (cases "i < length chunks")
    case False
    with "1.prems" have "w' = w" and "r = None" by (simp_all add: unfold)
    moreover from False have "[?q..<batchCount (length chunks)] = []"
      by (simp add: ar(3))
    ultimately show ?thesis by (intro exI [of _ "batchCount (length chunks)"]) simp
  next
    case True
    let ?b = "slice chunks i (i + EMBEDDING_BATCH_SIZE)"
    let ?w1 = "emit (EmbedManyCall model ?b) w"
    have b: "?b = batchNo chunks ?q" by (simp add: batchNo_def ar(2))
    have q: "Suc ?q \<le> batchCount (length chunks)" using True by (simp add: ar(3))
    show ?thesis
    proof (cases "embedMany env model ?b")
      case (Inl err)
      with "1.prems"(2) True have "w' = ?w1" and "r \<noteq> None" by (auto simp: unfold Let_def)
      then have "embedManyCalls (trace w')
                 = embedManyCalls (trace w) @ map ?call [?q..<Suc ?q]" and "r \<noteq> None"
        by (simp_all add: emit_def b)
      with q show ?thesis by blast
    next
      case (Inr embeddings)
      let ?rows = "map (\<lambda>(chunk, batchIndex). makeRow page modelName modelDimensions i chunk batchIndex)
                     (zip ?b [0..<length ?b])"
      obtain r2 w2 where ins: "insertRows env ?rows embeddings 0 ?w1 = (r2, w2)"
        by (cases "insertRows env ?rows embeddings 0 ?w1") blast
      have "embedManyCalls (trace w2) = embedManyCalls (trace ?w1)"
        using insertRows_embedManyCalls [of env ?rows embeddings ?w1] by (simp add: ins)
      then have first: "embedManyCalls (trace w2)
                   = embedManyCalls (trace w) @ [?call ?q]"
        by (simp add: emit_def b)
      show ?thesis
      proof (cases r2)
        case (Some err)
        with "1.prems"(2) True Inr ins have "w' = w2" and "r \<noteq> None"
          by (auto simp: unfold Let_def)
        with first have "embedManyCalls (trace w')
            = embedManyCalls (trace w) @ map ?call [?q..<Suc ?q]" and "r \<noteq> None"
          by simp_all
        with q show ?thesis by blast
      next
        case None
        have run: "embedBatches env page model modelName modelDimensions chunks
                     (i + EMBEDDING_BATCH_SIZE) w2 = (r, w')"
          using "1.prems"(2) True Inr ins None by (simp add: unfold Let_def)
        have dvd': "EMBEDDING_BATCH_SIZE dvd i + EMBEDDING_BATCH_SIZE"
          using "1.prems"(1) by simp
        from "1.IH" [OF True refl refl Inr refl ins [symmetric] _ dvd' run] None
        obtain B' where B': "B' \<le> batchCount (length chunks)"
          and rest: "embedManyCalls (trace w')
                     = embedManyCalls (trace w2) @ map ?call [Suc ?q..<B']"
          and full: "r = None \<longrightarrow> B' = batchCount (length chunks)"
          by (auto simp: ar(1))
        show ?thesis
        proof (cases "Suc ?q \<le> B'")
          case le: True
          then have "[?q..<B'] = ?q # [Suc ?q..<B']" by (simp add: upt_conv_Cons)
          with rest first have "embedManyCalls (trace w')
              = embedManyCalls (trace w) @ map ?call [?q..<B']" by simp
          with B' full show ?thesis by blast
        next
          case gt: False
          then have "[Suc ?q..<B'] = []" by simp
          with rest first have "embedManyCalls (trace w')
              = embedManyCalls (trace w) @ map ?call [?q..<Suc ?q]" by simp
          moreover have "r = None \<longrightarrow> Suc ?q = batchCount (length chunks)"
            using full gt q by auto
          ultimately show ?thesis using q by blast
        qed
      qed
    qed
  qed
qed

lemma embedBatches_succeeds:
  "EMBEDDING_BATCH_SIZE dvd i \<Longrightarrow>
   \<forall>b<batchCount (length chunks).
      \<exists>vs. embedMany env model (batchNo chunks b) = Inr vs
           \<and> length (batchNo chunks b) \<le> length vs \<Longrightarrow>
   fst (embedBatches env page model modelName modelDimensions chunks i w) = None"
proof (induction env page model modelName modelDimensions chunks i w rule: embedBatches.induct)
  case (1 env page model modelName modelDimensions chunks i w)
  note unfold = embedBatches.simps [of env page model modelName modelDimensions chunks i w]
  note ar = batch_arith [OF "1.prems"(1)]
  show ?case
  proof (cases "i < length chunks")
    case False
    then show ?thesis by (simp add: unfold)
  next
    case True
    let ?b = "slice chunks i (i + EMBEDDING_BATCH_SIZE)"
    let ?w1 = "emit (EmbedManyCall model ?b) w"
    have b: "?b = batchNo chunks (i div EMBEDDING_BATCH_SIZE)" by (simp add: batchNo_def ar(2))
    from True "1.prems"(2) obtain embeddings where emb: "embedMany env model ?b = Inr embeddings"
      and len: "length ?b \<le> length embeddings"
      unfolding b using ar(3) by blast
    let ?rows = "map (\<lambda>(chunk, batchIndex). makeRow page modelName modelDimensions i chunk batchIndex)
                   (zip ?b [0..<length ?b])"
    obtain w2 where ins: "insertRows env ?rows embeddings 0 ?w1 = (None, w2)"
      using len by (simp add: insertRows_eq)
    have dvd': "EMBEDDING_BATCH_SIZE dvd i + EMBEDDING_BATCH_SIZE"
      using "1.prems"(1) by simp
    from "1.IH" [OF True refl refl emb refl ins [symmetric] refl dvd' "1.prems"(2)] True emb ins
    show ?thesis by (simp add: unfold Let_def)
  qed
qed

lemma trim_Nil_iff: "trim s = [] \<longleftrightarrow> (\<forall>c\<in>set s. isWhiteSpace c)"
proof
  assume "trim s = []"
  then have all: "\<forall>c\<in>set (dropWhile isWhiteSpace s). isWhiteSpace c"
    by (simp add: trim_def dropWhile_eq_Nil_conv)
  have "dropWhile isWhiteSpace s = []"
  proof (rule ccontr)
    assume ne: "dropWhile isWhiteSpace s \<noteq> []"
    then have "\<not> isWhiteSpace (hd (dropWhile isWhiteSpace s))" by (rule hd_dropWhile)
    moreover from ne have "hd (dropWhile isWhiteSpace s) \<in> set (dropWhile isWhiteSpace s)"
      by simp
    ultimately show False using all by blast
  qed
  then show "\<forall>c\<in>set s. isWhiteSpace c" by (simp add: dropWhile_eq_Nil_conv)
next
  assume "\<forall>c\<in>set s. isWhiteSpace c"
  then have dw: "dropWhile isWhiteSpace s = []" by (simp add: dropWhile_eq_Nil_conv)
  show "trim s = []" by (simp add: trim_def dw)
qed

lemma noText_iff:
  "noText t \<longleftrightarrow> (case t of None \<Rightarrow> True | Some s \<Rightarrow> \<forall>c\<in>set s. isWhiteSpace c)"
  by (auto simp: noText_def trim_Nil_iff split: option.splits)

lemma generate_noText:
  "noText (pf_textContent page) \<Longrightarrow> generateEmbeddingsForPage env page w = (None, w)"
  by (simp add: generateEmbeddingsForPage_def)

lemma generate_unfold:
  assumes "\<not> noText (pf_textContent page)"
    and "splitText env (the (pf_textContent page)) = chunks" and "chunks \<noteq> []"
    and "getEmbeddingModel env = Inr model"
  shows "generateEmbeddingsForPage env page w =
     (case embedBatches env page model (getAiEmbeddingModel env) (getEmbeddingDimension env)
             chunks 0 (deleteEmbeddingsForPage (pf_id page) w) of
        (Some err, w2) \<Rightarrow> (Some err, w2)
      | (None, w2) \<Rightarrow>
          (None, emit (Logged LogDebug (GeneratedEmbeddings (length chunks) (pf_id page))) w2))"
  using assms by (simp add: generateEmbeddingsForPage_def Let_def)

text \<open>What a run adds to the table, whatever its outcome.\<close>

lemma generate_rows:
  assumes run: "generateEmbeddingsForPage env page w = (r, w')"
    and has_text: "\<not> noText (pf_textContent page)"
    and chunks: "splitText env (the (pf_textContent page)) = chunks"
  shows "\<exists>M\<le>length chunks.
     page_embeddings w' = filter (\<lambda>pe. page_id pe \<noteq> pf_id page) (page_embeddings w) @
       map (\<lambda>k. storedChunk env page (projr (getEmbeddingModel env)) (getAiEmbeddingModel env)
                  (getEmbeddingDimension env) chunks k) [0..<M]
     \<and> (r = None \<longrightarrow> M = length chunks)"
proof (cases "chunks = []")
  case True
  with run has_text chunks have "w' = deleteEmbeddingsForPage (pf_id page) w"
    by (simp add: generateEmbeddingsForPage_def Let_def)
  with True show ?thesis
    by (intro exI [of _ 0]) (simp add: deleteEmbeddingsForPage_def emit_def)
next
  case ne: False
  show ?thesis
  proof (cases "getEmbeddingModel env")
    case (Inl err)
    with run has_text chunks ne have "w' = deleteEmbeddingsForPage (pf_id page) w" and "r \<noteq> None"
      by (auto simp: generateEmbeddingsForPage_def Let_def)
    then show ?thesis
      by (intro exI [of _ 0]) (auto simp: deleteEmbeddingsForPage_def emit_def)
  next
    case (Inr model)
    let ?w1 = "deleteEmbeddingsForPage (pf_id page) w"
    obtain r2 w2 where eb: "embedBatches env page model (getAiEmbeddingModel env)
        (getEmbeddingDimension env) chunks 0 ?w1 = (r2, w2)"
      by (cases "embedBatches env page model (getAiEmbeddingModel env)
        (getEmbeddingDimension env) chunks 0 ?w1") blast
    from run have rw: "r = r2 \<and> page_embeddings w' = page_embeddings w2"
      unfolding generate_unfold [OF has_text chunks ne Inr] eb
      by (cases r2) (auto simp: emit_def)
    from embedBatches_rows [OF _ eb] obtain M where "M \<le> length chunks"
      and "page_embeddings w2 = page_embeddings ?w1 @
             map (storedChunk env page model (getAiEmbeddingModel env)
                    (getEmbeddingDimension env) chunks) [0..<M]"
      and "r2 = None \<longrightarrow> M = length chunks"
      by auto
    with rw Inr show ?thesis
      by (intro exI [of _ M]) (simp add: deleteEmbeddingsForPage_def emit_def)
  qed
qed

lemma generate_succeeds:
  assumes has_text: "\<not> noText (pf_textContent page)"
    and chunks: "splitText env (the (pf_textContent page)) = chunks"
    and model: "getEmbeddingModel env = Inr model"
    and emb: "\<forall>b<batchCount (length chunks).
                \<exists>vs. embedMany env model (batchNo chunks b) = Inr vs
                     \<and> length (batchNo chunks b) \<le> length vs"
  shows "fst (generateEmbeddingsForPage env page w) = None"
proof (cases "chunks = []")
  case True
  with has_text chunks show ?thesis by (simp add: generateEmbeddingsForPage_def Let_def)
next
  case ne: False
  let ?w1 = "deleteEmbeddingsForPage (pf_id page) w"
  obtain r2 w2 where eb: "embedBatches env page model (getAiEmbeddingModel env)
      (getEmbeddingDimension env) chunks 0 ?w1 = (r2, w2)"
    by (cases "embedBatches env page model (getAiEmbeddingModel env)
      (getEmbeddingDimension env) chunks 0 ?w1") blast
  have "fst (embedBatches env page model (getAiEmbeddingModel env)
        (getEmbeddingDimension env) chunks 0 ?w1) = None"
    by (rule embedBatches_succeeds [OF _ emb]) simp
  then have "r2 = None" by (simp add: eb)
  then show ?thesis
    unfolding generate_unfold [OF has_text chunks ne model] eb by simp
qed

lemma generate_embedManyCalls:
  assumes run: "generateEmbeddingsForPage env page w = (None, w')"
    and has_text: "\<not> noText (pf_textContent page)"
    and chunks: "splitText env (the (pf_textContent page)) = chunks" and ne: "chunks \<noteq> []"
    and model: "getEmbeddingModel env = Inr model"
  shows "embedManyCalls (trace w') = embedManyCalls (trace w) @
       map (\<lambda>b. (model, batchNo chunks b)) [0..<batchCount (length chunks)]"
proof -
  let ?w1 = "deleteEmbeddingsForPage (pf_id page) w"
  obtain r2 w2 where eb: "embedBatches env page model (getAiEmbeddingModel env)
      (getEmbeddingDimension env) chunks 0 ?w1 = (r2, w2)"
    by (cases "embedBatches env page model (getAiEmbeddingModel env)
      (getEmbeddingDimension env) chunks 0 ?w1") blast
  from run have rw: "r2 = None \<and> embedManyCalls (trace w') = embedManyCalls (trace w2)"
    unfolding generate_unfold [OF has_text chunks ne model] eb
    by (cases r2) (auto simp: emit_def)
  from embedBatches_trace [OF _ eb] rw
  have "embedManyCalls (trace w2) = embedManyCalls (trace ?w1) @
       map (\<lambda>b. (model, batchNo chunks b)) [0..<batchCount (length chunks)]"
    by auto
  with rw show ?thesis by (simp add: deleteEmbeddingsForPage_def emit_def)
qed

lemma take_batches:
  "concat (map (batchNo chunks) [0..<n]) = take (n * EMBEDDING_BATCH_SIZE) chunks"
proof (induction n)
  case 0
  show ?case by simp
next
  case (Suc n)
  have "take (n * EMBEDDING_BATCH_SIZE) chunks @ batchNo chunks n
        = take (n * EMBEDDING_BATCH_SIZE + EMBEDDING_BATCH_SIZE) chunks"
    by (simp add: batchNo_def slice_def take_add)
  with Suc show ?case by (simp add: add.commute)
qed

lemma batchCount_covers: "n \<le> batchCount n * EMBEDDING_BATCH_SIZE"
  unfolding batchCount_def EMBEDDING_BATCH_SIZE_def by simp

lemma concat_batches:
  "concat (map (batchNo chunks) [0..<batchCount (length chunks)]) = chunks"
  by (simp add: take_batches batchCount_covers)

lemma batch_size:
  assumes "b < batchCount (length chunks)"
  shows "0 < length (batchNo chunks b)" and "length (batchNo chunks b) \<le> EMBEDDING_BATCH_SIZE"
proof -
  from assms have "b * EMBEDDING_BATCH_SIZE < length chunks"
    unfolding batchCount_def EMBEDDING_BATCH_SIZE_def by simp
  then show "0 < length (batchNo chunks b)"
    by (simp add: batchNo_def slice_def EMBEDDING_BATCH_SIZE_def)
  show "length (batchNo chunks b) \<le> EMBEDDING_BATCH_SIZE"
    by (simp add: batchNo_def slice_def)
qed

lemma batchCount_ceiling: "int (batchCount n) = \<lceil>real n / 100\<rceil>"
proof -
  have "\<lceil>real n / 100\<rceil> = \<lceil>real_of_int (int n) / real_of_int 100\<rceil>" by simp
  also have "\<dots> = - (- int n div 100)" by (rule ceiling_divide_eq_div)
  also have "\<dots> = int ((n + 99) div 100)" by linarith
  finally show ?thesis by (simp add: batchCount_def EMBEDDING_BATCH_SIZE_def)
qed



subsection \<open>Regeneration of one page\<close>

lemmas run_defs =
  generateEmbeddingsForPage_def noText_def trim_def isWhiteSpace_def
  deleteEmbeddingsForPage_def emit_def getEmbeddingModel_def getEmbeddingDimension_def
  presetDimensions_def EMBEDDING_BATCH_SIZE_def slice_def insertRows_eq insertedValues_def
  makeRow_def at_index_def upt_rec_numeral Let_def

text \<open>
  C7. If the text of a document is null, empty or made of white space only,
  regeneration returns normally and changes nothing: no statement is sent, no row of
  the document is deleted, no row is inserted, and the world after the call is the
  world before it.
\<close>

theorem regeneration_without_text:
  assumes "pf_textContent page = None
           \<or> (\<exists>t. pf_textContent page = Some t \<and> (\<forall>c\<in>set t. isWhiteSpace c))"
  shows "generateEmbeddingsForPage env page w = (None, w)"
proof -
  from assms have "noText (pf_textContent page)"
    by (auto simp: noText_iff)
  then show ?thesis by (rule generate_noText)
qed

theorem regeneration_without_text_witness:
  "generateEmbeddingsForPage demoEnv
        (demoPage\<lparr>pf_textContent := Some [CHR '' '', CHR 0x0A, CHR 0x09]\<rparr>) storedWorld
       = (None, storedWorld)
   \<and> generateEmbeddingsForPage demoEnv (demoPage\<lparr>pf_textContent := Some []\<rparr>) storedWorld
       = (None, storedWorld)
   \<and> generateEmbeddingsForPage demoEnv (demoPage\<lparr>pf_textContent := None\<rparr>) storedWorld
       = (None, storedWorld)"
  using regeneration_without_text
          [of "demoPage\<lparr>pf_textContent := Some [CHR '' '', CHR 0x0A, CHR 0x09]\<rparr>" demoEnv storedWorld]
        regeneration_without_text [of "demoPage\<lparr>pf_textContent := Some []\<rparr>" demoEnv storedWorld]
        regeneration_without_text [of "demoPage\<lparr>pf_textContent := None\<rparr>" demoEnv storedWorld]
  by (simp add: isWhiteSpace_def)

text \<open>
  C6. After a regeneration that returned without throwing, for a document with text
  that the splitter cut into \<open>N\<close> chunks, the chunk indices stored for the document,
  read in table order, are exactly \<open>0, ..., N - 1\<close>: contiguous from 0, without gap
  and without duplicate, across all batches of the run.
\<close>

theorem chunk_indices_contiguous:
  assumes "generateEmbeddingsForPage env page w = (None, w')"
    and "\<not> noText (pf_textContent page)"
    and "splitText env (the (pf_textContent page)) = chunks"
  shows "map chunk_index (filter (\<lambda>pe. page_id pe = pf_id page) (page_embeddings w'))
         = [0..<length chunks]"
proof -
  from generate_rows [OF assms]
  have rows: "page_embeddings w' = filter (\<lambda>pe. page_id pe \<noteq> pf_id page) (page_embeddings w) @
       map (\<lambda>k. storedChunk env page (projr (getEmbeddingModel env)) (getAiEmbeddingModel env)
                  (getEmbeddingDimension env) chunks k) [0..<length chunks]"
    by auto
  have "map chunk_index (filter (\<lambda>pe. page_id pe = pf_id page) (page_embeddings w'))
        = map (\<lambda>k. k) [0..<length chunks]"
    unfolding rows by (simp add: storedChunk_def filter_map comp_def)
  then show ?thesis by simp
qed

lemma demo_run:
  "generateEmbeddingsForPage demoEnv demoPage storedWorld
   = (None,
      \<lparr>pages = [], spaces = [],
       page_embeddings =
         [\<lparr>page_id = ''p1'', space_id = ''A'', workspace_id = ''w1'',
           model_name = ''text-embedding-3-small'', model_dimensions = 1536,
           embedding = Some [1], chunk_index = 0, chunk_start = 0, chunk_length = 1,
           metadata = JObject [(''text'', JString ''a'')]\<rparr>,
          \<lparr>page_id = ''p1'', space_id = ''A'', workspace_id = ''w1'',
           model_name = ''text-embedding-3-small'', model_dimensions = 1536,
           embedding = Some [1], chunk_index = 1, chunk_start = 0, chunk_length = 1,
           metadata = JObject [(''text'', JString ''b'')]\<rparr>,
          \<lparr>page_id = ''p1'', space_id = ''A'', workspace_id = ''w1'',
           model_name = ''text-embedding-3-small'', model_dimensions = 1536,
           embedding = Some [1], chunk_index = 2, chunk_start = 0, chunk_length = 1,
           metadata = JObject [(''text'', JString ''c'')]\<rparr>],
       trace =
         [SqlDeleteEmbeddingsOfPage ''p1'',
          EmbedManyCall (EmbeddingModel (OpenAI ''key'') ''text-embedding-3-small'')
            [''a'', ''b'', ''c''],
          SqlInsertEmbedding ''p1'' 0,
          SqlInsertEmbedding ''p1'' 1,
          SqlInsertEmbedding ''p1'' 2,
          Logged LogDebug (GeneratedEmbeddings 3 ''p1'')]\<rparr>)"
  by (simp add: run_defs demoEnv_def demoPage_def storedWorld_def
        embedBatches.simps [of _ _ _ _ _ _ 0] embedBatches.simps [of _ _ _ _ _ _ 100])

lemma demo_text: "\<not> noText (pf_textContent demoPage)"
  by (simp add: demoPage_def noText_def trim_def isWhiteSpace_def)

lemma demo_chunks: "splitText demoEnv (the (pf_textContent demoPage)) = [''a'', ''b'', ''c'']"
  by (simp add: demoPage_def demoEnv_def)

theorem chunk_indices_contiguous_witness:
  "map chunk_index
     (filter (\<lambda>pe. page_id pe = ''p1'')
        (page_embeddings (snd (generateEmbeddingsForPage demoEnv demoPage storedWorld))))
   = [0, 1, 2]"
  using chunk_indices_contiguous [OF demo_run demo_text demo_chunks]
  by (simp add: demo_run)







text \<open>
  C5. For a document whose text splits into \<open>N > 0\<close> chunks, with a supported driver
  and an embedding function that answers every batch with one vector per value,
  regeneration returns normally, issues exactly \<open>\<lceil>N / 100\<rceil>\<close> embedding calls, the
  \<open>b\<close>-th for the \<open>b\<close>-th batch, every batch holding at least one and at most 100 chunks
  and the batches together being the chunks in order, and persists exactly \<open>N\<close> rows
  of the document, the \<open>k\<close>-th with the vector returned for chunk \<open>k\<close>.
\<close>

theorem regeneration_batches:
  assumes "\<not> noText (pf_textContent page)"
    and "splitText env (the (pf_textContent page)) = chunks"
    and "chunks \<noteq> []"
    and "getEmbeddingModel env = Inr model"
    and "\<forall>b<batchCount (length chunks).
           \<exists>vs. embedMany env model (batchNo chunks b) = Inr vs
                \<and> length vs = length (batchNo chunks b)"
  shows "\<exists>w' rows.
       generateEmbeddingsForPage env page w = (None, w')
     \<and> embedManyCalls (trace w') = embedManyCalls (trace w) @
           map (\<lambda>b. (model, batchNo chunks b)) [0..<batchCount (length chunks)]
     \<and> int (batchCount (length chunks)) = \<lceil>real (length chunks) / 100\<rceil>
     \<and> (\<forall>b<batchCount (length chunks).
            0 < length (batchNo chunks b) \<and> length (batchNo chunks b) \<le> 100)
     \<and> concat (map (batchNo chunks) [0..<batchCount (length chunks)]) = chunks
     \<and> page_embeddings w' = filter (\<lambda>pe. page_id pe \<noteq> pf_id page) (page_embeddings w) @ rows
     \<and> length rows = length chunks
     \<and> (\<forall>k<length chunks.
            page_id (rows ! k) = pf_id page
          \<and> (\<exists>vs. embedMany env model (batchNo chunks (k div 100)) = Inr vs
                  \<and> k mod 100 < length vs
                  \<and> embedding (rows ! k) = toSql env (Some (vs ! (k mod 100)))))"
proof -
  let ?sc = "storedChunk env page model (getAiEmbeddingModel env) (getEmbeddingDimension env) chunks"
  from assms(5) have ok: "\<forall>b<batchCount (length chunks).
      \<exists>vs. embedMany env model (batchNo chunks b) = Inr vs
           \<and> length (batchNo chunks b) \<le> length vs"
    by fastforce
  have "fst (generateEmbeddingsForPage env page w) = None"
    by (rule generate_succeeds [OF assms(1,2,4) ok])
  then obtain w' where run: "generateEmbeddingsForPage env page w = (None, w')"
    by (cases "generateEmbeddingsForPage env page w") auto
  have calls: "embedManyCalls (trace w') = embedManyCalls (trace w) @
           map (\<lambda>b. (model, batchNo chunks b)) [0..<batchCount (length chunks)]"
    by (rule generate_embedManyCalls [OF run assms(1,2,3,4)])
  from generate_rows [OF run assms(1,2)] assms(4)
  have rows: "page_embeddings w' = filter (\<lambda>pe. page_id pe \<noteq> pf_id page) (page_embeddings w) @
       map ?sc [0..<length chunks]"
    by auto
  have sizes: "\<forall>b<batchCount (length chunks).
            0 < length (batchNo chunks b) \<and> length (batchNo chunks b) \<le> 100"
    using batch_size [of _ chunks] by (auto simp: EMBEDDING_BATCH_SIZE_def)
  have vec: "page_id (?sc k) = pf_id page
          \<and> (\<exists>vs. embedMany env model (batchNo chunks (k div 100)) = Inr vs
                  \<and> k mod 100 < length vs
                  \<and> embedding (?sc k) = toSql env (Some (vs ! (k mod 100))))"
    if k: "k < length chunks" for k
  proof -
    have b: "k div 100 < batchCount (length chunks)"
      using k unfolding batchCount_def EMBEDDING_BATCH_SIZE_def by simp
    with assms(5) obtain vs where vs: "embedMany env model (batchNo chunks (k div 100)) = Inr vs"
      and len: "length vs = length (batchNo chunks (k div 100))"
      by blast
    have "k div 100 * 100 + k mod 100 = k" by simp
    then have "k mod 100 < length chunks - k div 100 * 100" using k by linarith
    then have "k mod 100 < length (batchNo chunks (k div 100))"
      by (simp add: batchNo_def slice_def EMBEDDING_BATCH_SIZE_def)
    with vs len show ?thesis
      by (simp add: storedChunk_def EMBEDDING_BATCH_SIZE_def at_index_def)
  qed
  show ?thesis
    using run calls batchCount_ceiling [of "length chunks"] sizes concat_batches [of chunks] rows vec
    by (intro exI [of _ w'] exI [of _ "map ?sc [0..<length chunks]"]) simp
qed

lemma long_text: "\<not> noText (pf_textContent longPage)"
  by (simp add: longPage_def noText_iff isWhiteSpace_def)

lemma long_chunks:
  "splitText demoEnv (the (pf_textContent longPage)) = replicate 250 ''x''"
  by (simp add: longPage_def demoEnv_def)

lemma demo_model:
  "getEmbeddingModel demoEnv = Inr (EmbeddingModel (OpenAI ''key'') ''text-embedding-3-small'')"
  by (simp add: getEmbeddingModel_def demoEnv_def)

lemma demo_embedMany:
  "\<forall>b<batchCount (length chunks).
      \<exists>vs. embedMany demoEnv model (batchNo chunks b) = Inr vs
           \<and> length vs = length (batchNo chunks b)"
  by (simp add: demoEnv_def)

theorem regeneration_batches_witness:
  "\<exists>w'. generateEmbeddingsForPage demoEnv longPage storedWorld = (None, w')
      \<and> map (\<lambda>(model, vals). length vals) (embedManyCalls (trace w')) = [100, 100, 50]
      \<and> length (filter (\<lambda>pe. page_id pe = ''p2'') (page_embeddings w')) = 250"
proof -
  have ne: "replicate 250 ''x'' \<noteq> []" by simp
  have n: "batchCount 250 = 3" by (simp add: batchCount_def EMBEDDING_BATCH_SIZE_def)
  from regeneration_batches [OF long_text long_chunks ne demo_model demo_embedMany, of storedWorld]
  obtain w' rows where run: "generateEmbeddingsForPage demoEnv longPage storedWorld = (None, w')"
    and calls: "embedManyCalls (trace w') = embedManyCalls (trace storedWorld) @
           map (\<lambda>b. (EmbeddingModel (OpenAI ''key'') ''text-embedding-3-small'',
                      batchNo (replicate 250 ''x'') b)) [0..<batchCount (length (replicate 250 ''x''))]"
    and rows: "page_embeddings w'
                 = filter (\<lambda>pe. page_id pe \<noteq> pf_id longPage) (page_embeddings storedWorld) @ rows"
    and len: "length rows = length (replicate 250 ''x'')"
    and ids: "\<forall>k<length (replicate 250 ''x''). page_id (rows ! k) = pf_id longPage"
    by blast
  have u: "[0..<3] = [0, 1, 2 :: nat]" by (simp add: eval_nat_numeral)
  have "map (\<lambda>(model, vals). length vals) (embedManyCalls (trace w')) = [100, 100, 50]"
    unfolding calls
    by (simp add: n u storedWorld_def batchNo_def slice_def EMBEDDING_BATCH_SIZE_def)
  moreover have "filter (\<lambda>pe. page_id pe = ''p2'') rows = rows"
    using ids len by (auto simp: filter_id_conv in_set_conv_nth longPage_def)
  then have "length (filter (\<lambda>pe. page_id pe = ''p2'') (page_embeddings w')) = 250"
    unfolding rows using len by (simp add: storedWorld_def longPage_def)
  ultimately show ?thesis using run by (intro exI [of _ w']) simp
qed

subsection \<open>The workspace run\<close>

lemma pageDeletions_append [simp]:
  "pageDeletions (a @ b) = pageDeletions a @ pageDeletions b"
  by (simp add: pageDeletions_def)

lemma pageDeletions_simps [simp]:
  "pageDeletions [] = []"
  "pageDeletions (e # tr) = pageDeletion e @ pageDeletions tr"
  by (simp_all add: pageDeletions_def)

lemma loggedFailures_append [simp]:
  "loggedFailures (a @ b) = loggedFailures a @ loggedFailures b"
  by (simp add: loggedFailures_def)

lemma loggedFailures_simps [simp]:
  "loggedFailures [] = []"
  "loggedFailures (e # tr) = loggedFailure e @ loggedFailures tr"
  by (simp_all add: loggedFailures_def)

lemma projections_inserts:
  "pageDeletions (map (\<lambda>j. SqlInsertEmbedding (f j) (g j)) js) = []"
  "loggedFailures (map (\<lambda>j. SqlInsertEmbedding (f j) (g j)) js) = []"
  by (induction js) simp_all

lemma embedBatches_other_calls:
  "embedBatches env page model modelName modelDimensions chunks i w = (r, w') \<Longrightarrow>
   pageDeletions (trace w') = pageDeletions (trace w)
   \<and> loggedFailures (trace w') = loggedFailures (trace w)"
proof (induction env page model modelName modelDimensions chunks i w rule: embedBatches.induct)
  case (1 env page model modelName modelDimensions chunks i w)
  note unfold = embedBatches.simps [of env page model modelName modelDimensions chunks i w]
  show ?case
  proof (cases "i < length chunks")
    case False
    with "1.prems" show ?thesis by (simp add: unfold)
  next
    case True
    let ?b = "slice chunks i (i + EMBEDDING_BATCH_SIZE)"
    let ?w1 = "emit (EmbedManyCall model ?b) w"
    show ?thesis
    proof (cases "embedMany env model ?b")
      case (Inl err)
      with "1.prems" True have "w' = ?w1" by (simp add: unfold Let_def)
      then show ?thesis by (simp add: emit_def)
    next
      case (Inr embeddings)
      let ?rows = "map (\<lambda>(chunk, batchIndex). makeRow page modelName modelDimensions i chunk batchIndex)
                     (zip ?b [0..<length ?b])"
      obtain r2 w2 where ins: "insertRows env ?rows embeddings 0 ?w1 = (r2, w2)"
        by (cases "insertRows env ?rows embeddings 0 ?w1") blast
      have "w2 = snd (insertRows env ?rows embeddings 0 ?w1)" by (simp add: ins)
      then have w2: "pageDeletions (trace w2) = pageDeletions (trace w)
                     \<and> loggedFailures (trace w2) = loggedFailures (trace w)"
        by (simp add: insertRows_eq emit_def projections_inserts)
      show ?thesis
      proof (cases r2)
        case (Some err)
        with "1.prems" True Inr ins have "w' = w2" by (simp add: unfold Let_def)
        with w2 show ?thesis by simp
      next
        case None
        have run: "embedBatches env page model modelName modelDimensions chunks
                     (i + EMBEDDING_BATCH_SIZE) w2 = (r, w')"
          using "1.prems" True Inr ins None by (simp add: unfold Let_def)
        from "1.IH" [OF True refl refl Inr refl ins [symmetric] _ run] None w2
        show ?thesis by simp
      qed
    qed
  qed
qed

lemma embedBatches_outcome:
  "fst (embedBatches env page model modelName modelDimensions chunks i w)
   = fst (embedBatches env page model modelName modelDimensions chunks i w0)"
proof (induction env page model modelName modelDimensions chunks i w arbitrary: w0
       rule: embedBatches.induct)
  case (1 env page model modelName modelDimensions chunks i w)
  note unfold = embedBatches.simps [of env page model modelName modelDimensions chunks i]
  show ?case
  proof (cases "i < length chunks")
    case False
    then show ?thesis by (simp add: unfold)
  next
    case True
    let ?b = "slice chunks i (i + EMBEDDING_BATCH_SIZE)"
    show ?thesis
    proof (cases "embedMany env model ?b")
      case (Inl err)
      with True show ?thesis by (simp add: unfold Let_def)
    next
      case (Inr embeddings)
      let ?rows = "map (\<lambda>(chunk, batchIndex). makeRow page modelName modelDimensions i chunk batchIndex)
                     (zip ?b [0..<length ?b])"
      let ?ins = "\<lambda>w. insertRows env ?rows embeddings 0 (emit (EmbedManyCall model ?b) w)"
      have out: "fst (?ins w) = (if length ?rows \<le> length embeddings then None
                                 else Some (undefinedVector env))" for w
        by (simp add: insertRows_eq)
      show ?thesis
      proof (cases "length ?rows \<le> length embeddings")
        case short: False
        with out [of w] out [of w0] True Inr show ?thesis
          by (simp add: unfold Let_def case_prod_beta)
      next
        case ok: True
        with out [of w] have insw: "?ins w = (None, snd (?ins w))"
          by (simp add: prod_eq_iff)
        from "1.IH" [OF True refl refl Inr refl insw [symmetric] refl, of "snd (?ins w0)"]
             ok out [of w] out [of w0] True Inr
        show ?thesis by (simp add: unfold Let_def case_prod_beta)
      qed
    qed
  qed
qed

lemma generate_outcome_any:
  "fst (generateEmbeddingsForPage env page w) = fst (generateEmbeddingsForPage env page w0)"
proof (cases "noText (pf_textContent page)")
  case True
  then show ?thesis by (simp add: generate_noText)
next
  case has_text: False
  show ?thesis
  proof (cases "splitText env (the (pf_textContent page)) = []")
    case True
    with has_text show ?thesis by (simp add: generateEmbeddingsForPage_def Let_def)
  next
    case ne: False
    show ?thesis
    proof (cases "getEmbeddingModel env")
      case (Inl err)
      with has_text ne show ?thesis by (simp add: generateEmbeddingsForPage_def Let_def)
    next
      case (Inr model)
      let ?run = "\<lambda>w. embedBatches env page model (getAiEmbeddingModel env)
                    (getEmbeddingDimension env) (splitText env (the (pf_textContent page))) 0
                    (deleteEmbeddingsForPage (pf_id page) w)"
      obtain r1 w1 r2 w2 where r: "?run w = (r1, w1)" "?run w0 = (r2, w2)"
        by (cases "?run w"; cases "?run w0") blast
      from embedBatches_outcome [of env page model "getAiEmbeddingModel env"
          "getEmbeddingDimension env" "splitText env (the (pf_textContent page))" 0
          "deleteEmbeddingsForPage (pf_id page) w" "deleteEmbeddingsForPage (pf_id page) w0"]
      have "r1 = r2" by (simp add: r)
      then show ?thesis
        unfolding generate_unfold [OF has_text refl ne Inr] r
        by (cases r2) simp_all
    qed
  qed
qed

lemma generate_outcome:
  "fst (generateEmbeddingsForPage env page w) = regenerationOutcome env page"
  unfolding regenerationOutcome_def by (rule generate_outcome_any)

lemma generate_other_calls:
  assumes run: "generateEmbeddingsForPage env page w = (r, w')"
    and has_text: "\<not> noText (pf_textContent page)"
  shows "pageDeletions (trace w') = pageDeletions (trace w) @ [pf_id page]"
    and "loggedFailures (trace w') = loggedFailures (trace w)"
proof -
  let ?w1 = "deleteEmbeddingsForPage (pf_id page) w"
  have d: "pageDeletions (trace ?w1) = pageDeletions (trace w) @ [pf_id page]"
          "loggedFailures (trace ?w1) = loggedFailures (trace w)"
    by (simp_all add: deleteEmbeddingsForPage_def emit_def)
  have "pageDeletions (trace w') = pageDeletions (trace ?w1)
        \<and> loggedFailures (trace w') = loggedFailures (trace ?w1)"
  proof (cases "splitText env (the (pf_textContent page)) = []")
    case True
    with run has_text show ?thesis by (simp add: generateEmbeddingsForPage_def Let_def)
  next
    case ne: False
    show ?thesis
    proof (cases "getEmbeddingModel env")
      case (Inl err)
      with run has_text ne show ?thesis by (auto simp: generateEmbeddingsForPage_def Let_def)
    next
      case (Inr model)
      obtain r2 w2 where eb: "embedBatches env page model (getAiEmbeddingModel env)
          (getEmbeddingDimension env) (splitText env (the (pf_textContent page))) 0 ?w1 = (r2, w2)"
        by (cases "embedBatches env page model (getAiEmbeddingModel env)
          (getEmbeddingDimension env) (splitText env (the (pf_textContent page))) 0 ?w1") blast
      from run have "pageDeletions (trace w') = pageDeletions (trace w2)
          \<and> loggedFailures (trace w') = loggedFailures (trace w2)"
        unfolding generate_unfold [OF has_text refl ne Inr] eb
        by (cases r2) (auto simp: emit_def)
      with embedBatches_other_calls [OF eb] show ?thesis by simp
    qed
  qed
  with d show "pageDeletions (trace w') = pageDeletions (trace w) @ [pf_id page]"
    and "loggedFailures (trace w') = loggedFailures (trace w)"
    by simp_all
qed

lemma pagesLoop_trace:
  "pagesLoop env pgs processedCount skippedCount w = (processedCount', skippedCount', w') \<Longrightarrow>
   pageDeletions (trace w') = pageDeletions (trace w) @ attemptedPages pgs
   \<and> loggedFailures (trace w') = loggedFailures (trace w) @ failedPages env pgs
   \<and> skippedCount' = skippedCount + length (filter (\<lambda>p. noText (pf_textContent p)) pgs)
   \<and> processedCount' + length (failedPages env pgs) + skippedCount'
       = processedCount + skippedCount + length pgs"
proof (induction pgs arbitrary: processedCount skippedCount w)
  case Nil
  then show ?case by (simp add: attemptedPages_def failedPages_def)
next
  case (Cons page rest)
  show ?case
  proof (cases "noText (pf_textContent page)")
    case True
    with Cons.prems have "pagesLoop env rest processedCount (skippedCount + 1) w
        = (processedCount', skippedCount', w')" by simp
    from Cons.IH [OF this] True show ?thesis
      by (simp add: attemptedPages_def failedPages_def)
  next
    case has_text: False
    obtain r w1 where run: "generateEmbeddingsForPage env page w = (r, w1)"
      by (cases "generateEmbeddingsForPage env page w") blast
    note calls = generate_other_calls [OF run has_text]
    have out: "regenerationOutcome env page = r"
      using generate_outcome [of env page w] by (simp add: run)
    show ?thesis
    proof (cases r)
      case None
      with Cons.prems has_text run
      have "pagesLoop env rest (processedCount + 1) skippedCount w1
              = (processedCount', skippedCount', w')" by simp
      from Cons.IH [OF this] has_text calls out None show ?thesis
        by (simp add: attemptedPages_def failedPages_def)
    next
      case (Some err)
      let ?w2 = "emit (Logged LogError (FailedPage (pf_id page) (message_or_String err))) w1"
      from Cons.prems has_text run Some
      have "pagesLoop env rest processedCount skippedCount ?w2
              = (processedCount', skippedCount', w')" by simp
      from Cons.IH [OF this] has_text calls out Some show ?thesis
        by (simp add: attemptedPages_def failedPages_def emit_def)
    qed
  qed
qed


text \<open>
  C8. In a workspace-wide run over the pages selected for the workspace, every page
  that has text is regenerated, in order and once, whatever the outcome of the pages
  before it: the delete statements sent during the run are those of the pages with
  text; each regeneration that throws, in the embedding call or in the insert loop, is
  caught and logged with the page and the message; for every pair of pages a failure
  of the first does not prevent the attempt on the second; and the run ends with the
  summary line, whose third count is the number of failures logged.
\<close>

theorem workspace_run_continues:
  "let pgs = selectPagesOfWorkspace workspaceId w;
       w' = generateEmbeddingsForWorkspace env workspaceId w
   in pageDeletions (trace w') = pageDeletions (trace w) @ attemptedPages pgs
    \<and> loggedFailures (trace w') = loggedFailures (trace w) @ failedPages env pgs
    \<and> (\<forall>i j. i < j \<and> j < length pgs
               \<and> regenerationOutcome env (pgs ! i) \<noteq> None
               \<and> \<not> noText (pf_textContent (pgs ! j))
          \<longrightarrow> pf_id (pgs ! j)
                \<in> set (drop (length (pageDeletions (trace w))) (pageDeletions (trace w'))))
    \<and> (\<exists>processedCount skippedCount.
          last (trace w')
            = Logged LogInfo (GenerationComplete processedCount skippedCount
                                (int (length (failedPages env pgs))))
        \<and> skippedCount = length (filter (\<lambda>p. noText (pf_textContent p)) pgs)
        \<and> processedCount + length (failedPages env pgs) + skippedCount = length pgs)"
proof -
  let ?pgs = "selectPagesOfWorkspace workspaceId w"
  let ?w1 = "emit (Logged LogInfo (StartingGeneration workspaceId)) w"
  let ?w2 = "emit (Logged LogInfo (FoundPages (length ?pgs)))
               (emit (SqlSelectPagesOfWorkspace workspaceId) ?w1)"
  have sel: "selectPagesOfWorkspace workspaceId ?w1 = ?pgs"
    by (simp add: selectPagesOfWorkspace_def emit_def)
  obtain pc sc w3 where loop: "pagesLoop env ?pgs 0 0 ?w2 = (pc, sc, w3)"
    by (cases "pagesLoop env ?pgs 0 0 ?w2") blast
  have w': "generateEmbeddingsForWorkspace env workspaceId w
            = emit (Logged LogInfo (GenerationComplete pc sc
                      (int (length ?pgs) - int pc - int sc))) w3"
    by (simp add: generateEmbeddingsForWorkspace_def Let_def sel loop)
  from pagesLoop_trace [OF loop]
  have d: "pageDeletions (trace (generateEmbeddingsForWorkspace env workspaceId w))
             = pageDeletions (trace w) @ attemptedPages ?pgs"
    and f: "loggedFailures (trace (generateEmbeddingsForWorkspace env workspaceId w))
             = loggedFailures (trace w) @ failedPages env ?pgs"
    and sk: "sc = length (filter (\<lambda>p. noText (pf_textContent p)) ?pgs)"
    and total: "pc + length (failedPages env ?pgs) + sc = length ?pgs"
    by (simp_all add: w' emit_def)
  from total have "int (length ?pgs) - int pc - int sc = int (length (failedPages env ?pgs))"
    by linarith
  then have summary: "last (trace (generateEmbeddingsForWorkspace env workspaceId w))
      = Logged LogInfo (GenerationComplete pc sc (int (length (failedPages env ?pgs))))"
    by (simp add: w' emit_def)
  have pair: "pf_id (?pgs ! j) \<in> set (attemptedPages ?pgs)"
    if "j < length ?pgs" and "\<not> noText (pf_textContent (?pgs ! j))" for j
    using that unfolding attemptedPages_def by (auto simp: in_set_conv_nth)
  have "\<exists>processedCount skippedCount.
          last (trace (generateEmbeddingsForWorkspace env workspaceId w))
            = Logged LogInfo (GenerationComplete processedCount skippedCount
                                (int (length (failedPages env ?pgs))))
        \<and> skippedCount = length (filter (\<lambda>p. noText (pf_textContent p)) ?pgs)
        \<and> processedCount + length (failedPages env ?pgs) + skippedCount = length ?pgs"
    using summary sk total by blast
  with d f pair show ?thesis by (simp add: Let_def)
qed

lemma pagesWorld_pages:
  "selectPagesOfWorkspace ''w1'' pagesWorld =
     [\<lparr>pf_id = ''pA'', pf_spaceId = ''A'', pf_workspaceId = ''w1'', pf_textContent = Some ''!''\<rparr>,
      \<lparr>pf_id = ''pB'', pf_spaceId = ''A'', pf_workspaceId = ''w1'', pf_textContent = Some ''?''\<rparr>,
      \<lparr>pf_id = ''pC'', pf_spaceId = ''A'', pf_workspaceId = ''w1'', pf_textContent = Some ''ab''\<rparr>,
      \<lparr>pf_id = ''pD'', pf_spaceId = ''A'', pf_workspaceId = ''w1'', pf_textContent = Some '' ''\<rparr>]"
  by (simp add: selectPagesOfWorkspace_def pagesWorld_def)

lemma failingEnv_outcomes:
  "regenerationOutcome failingEnv
     \<lparr>pf_id = ''pA'', pf_spaceId = ''A'', pf_workspaceId = ''w1'', pf_textContent = Some ''!''\<rparr>
   = Some (Error ''rate limit'')"
  "regenerationOutcome failingEnv
     \<lparr>pf_id = ''pB'', pf_spaceId = ''A'', pf_workspaceId = ''w1'', pf_textContent = Some ''?''\<rparr>
   = Some (Error ''expected array'')"
  "regenerationOutcome failingEnv
     \<lparr>pf_id = ''pC'', pf_spaceId = ''A'', pf_workspaceId = ''w1'', pf_textContent = Some ''ab''\<rparr>
   = None"
  by (simp_all add: regenerationOutcome_def run_defs failingEnv_def demoEnv_def
        embedBatches.simps [of _ _ _ _ _ _ 0] embedBatches.simps [of _ _ _ _ _ _ 100])

lemma pagesWorld_attempts:
  "attemptedPages (selectPagesOfWorkspace ''w1'' pagesWorld) = [''pA'', ''pB'', ''pC'']"
  "failedPages failingEnv (selectPagesOfWorkspace ''w1'' pagesWorld)
     = [(''pA'', ''rate limit''), (''pB'', ''expected array'')]"
  "filter (\<lambda>p. noText (pf_textContent p)) (selectPagesOfWorkspace ''w1'' pagesWorld)
     = [\<lparr>pf_id = ''pD'', pf_spaceId = ''A'', pf_workspaceId = ''w1'', pf_textContent = Some '' ''\<rparr>]"
  by (simp_all add: pagesWorld_pages failingEnv_outcomes attemptedPages_def failedPages_def
        noText_def trim_def isWhiteSpace_def message_or_String_def)

theorem workspace_run_continues_witness:
  "pageDeletions (trace (generateEmbeddingsForWorkspace failingEnv ''w1'' pagesWorld))
     = [''pA'', ''pB'', ''pC'']
   \<and> loggedFailures (trace (generateEmbeddingsForWorkspace failingEnv ''w1'' pagesWorld))
     = [(''pA'', ''rate limit''), (''pB'', ''expected array'')]
   \<and> last (trace (generateEmbeddingsForWorkspace failingEnv ''w1'' pagesWorld))
     = Logged LogInfo (GenerationComplete 1 1 2)"
proof -
  have tr: "trace pagesWorld = []" by (simp add: pagesWorld_def)
  have len: "length (selectPagesOfWorkspace ''w1'' pagesWorld) = 4"
    by (simp add: pagesWorld_pages)
  from workspace_run_continues [of "''w1''" pagesWorld failingEnv]
  show ?thesis
    unfolding Let_def pagesWorld_attempts tr len by auto
qed

section \<open>Properties of the search service and the controller\<close>

lemma similarityQueries_append [simp]:
  "similarityQueries (a @ b) = similarityQueries a @ similarityQueries b"
  by (simp add: similarityQueries_def)

lemma similarityQueries_simps [simp]:
  "similarityQueries [] = []"
  "similarityQueries (e # tr) = similarityQuery e @ similarityQueries tr"
  by (simp_all add: similarityQueries_def)

text \<open>
  C4. When the caller supplies no explicit target space (none, or the empty string)
  and the access resolver yields no space for the user, retrieval returns the empty
  sequence; the membership query is the only statement it sends, so no similarity
  query is issued, and the store is unchanged.
\<close>

theorem empty_access_short_circuit:
  assumes "\<not> truthy spaceId" and "getUserSpaceIds env userId = []"
  shows "findSimilarChunks env queryVector workspaceId userId spaceId w
           = ([], emit (SqlSelectUserSpaceIds userId) w)
       \<and> similarityQueries (trace (snd (findSimilarChunks env queryVector workspaceId userId spaceId w)))
           = similarityQueries (trace w)
       \<and> page_embeddings (snd (findSimilarChunks env queryVector workspaceId userId spaceId w))
           = page_embeddings w"
  using assms by (simp add: findSimilarChunks_def emit_def)

theorem empty_access_short_circuit_witness:
  "findSimilarChunks demoEnv [0] ''w1'' ''bob'' None searchWorld
     = ([], searchWorld\<lparr>trace := [SqlSelectUserSpaceIds ''bob'']\<rparr>)
   \<and> similarityQueries
        (trace (snd (findSimilarChunks demoEnv [0] ''w1'' ''bob'' None searchWorld))) = []"
  using empty_access_short_circuit [of None demoEnv "''bob''" "[0]" "''w1''" searchWorld]
  by (simp add: truthy_def demoEnv_def emit_def searchWorld_def)

lemma splitOn_free: "c \<notin> set x \<Longrightarrow> splitOn c x = [x]"
  by (induction x) auto

lemma splitOn_first:
  "c \<notin> set x \<Longrightarrow> splitOn c (x @ c # rest) = x # splitOn c rest"
  by (induction x) auto

lemma splitOn_join:
  "xs \<noteq> [] \<Longrightarrow> \<forall>x\<in>set xs. c \<notin> set x \<Longrightarrow> splitOn c (join [c] xs) = xs"
proof (induction "[c]" xs rule: join.induct)
  case 1
  then show ?case by simp
next
  case (2 x)
  then show ?case by (simp add: splitOn_free)
next
  case (3 x y ys)
  then show ?case by (simp add: splitOn_first)
qed

lemma arrayElements_literal:
  assumes "\<forall>s\<in>set ids. CHR '','' \<notin> set s"
  shows "set (arrayElements (pgArrayLiteral ids)) \<subseteq> set ids"
proof -
  have body: "butlast (tl (pgArrayLiteral ids)) = join '','' ids"
    by (simp add: pgArrayLiteral_def butlast_append)
  show ?thesis
  proof (cases "ids = []")
    case True
    have "butlast (tl (pgArrayLiteral [])) = []" by (simp add: pgArrayLiteral_def)
    with True show ?thesis by (simp add: arrayElements_def)
  next
    case False
    with assms have "splitOn CHR '','' (join '','' ids) = ids"
      by (intro splitOn_join) auto
    then show ?thesis by (simp add: arrayElements_def body Let_def)
  qed
qed

lemma selectSimilar_props:
  "(\<forall>c\<in>set (selectSimilar env vectorStr workspaceId literal w).
      \<exists>pe\<in>set (page_embeddings w).
         workspace_id pe = workspaceId \<and> space_id pe \<in> set (arrayElements literal)
       \<and> res_pageId c = page_id pe \<and> res_spaceId c = space_id pe
       \<and> res_chunkIndex c = chunk_index pe
       \<and> res_chunkText c = json_text_field (metadata pe) ''text''
       \<and> res_distance c = cosine_distance env (embedding pe) vectorStr)"
  "sorted (map res_distance (selectSimilar env vectorStr workspaceId literal w))"
  "length (selectSimilar env vectorStr workspaceId literal w) \<le> TOP_K"
proof -
  let ?f = "\<lambda>pe. cosine_distance env (embedding pe) vectorStr"
  let ?m = "filter (\<lambda>pe. workspace_id pe = workspaceId \<and> space_id pe \<in> set (arrayElements literal))
              (page_embeddings w)"
  have sub: "set (take TOP_K (sort_key ?f ?m)) \<subseteq> set ?m"
    using set_take_subset [of TOP_K "sort_key ?f ?m"] by simp
  show "\<forall>c\<in>set (selectSimilar env vectorStr workspaceId literal w).
      \<exists>pe\<in>set (page_embeddings w).
         workspace_id pe = workspaceId \<and> space_id pe \<in> set (arrayElements literal)
       \<and> res_pageId c = page_id pe \<and> res_spaceId c = space_id pe
       \<and> res_chunkIndex c = chunk_index pe
       \<and> res_chunkText c = json_text_field (metadata pe) ''text''
       \<and> res_distance c = cosine_distance env (embedding pe) vectorStr"
    using sub unfolding selectSimilar_def by auto
  have "map res_distance (selectSimilar env vectorStr workspaceId literal w)
        = take TOP_K (map ?f (sort_key ?f ?m))"
    by (simp add: selectSimilar_def take_map comp_def)
  then show "sorted (map res_distance (selectSimilar env vectorStr workspaceId literal w))"
    by (simp add: sorted_wrt_take)
  show "length (selectSimilar env vectorStr workspaceId literal w) \<le> TOP_K"
    by (simp add: selectSimilar_def)
qed


lemmas search_defs =
  findSimilarChunks_def selectSimilar_def truthy_def emit_def pgArrayLiteral_def
  arrayElements_def TOP_K_def Let_def

lemma demo_spaces: "getUserSpaceIds demoEnv ''alice'' = [''A'', ''B'']"
  by (simp add: demoEnv_def)

lemma explicit_search:
  "findSimilarChunks demoEnv [0] ''w1'' ''alice'' (Some ''C'') (emit e searchWorld)
   = ([\<lparr>res_pageId = ''pC'', res_spaceId = ''C'', res_chunkIndex = 0,
         res_chunkText = Some ''gamma'', res_distance = 1 / 100\<rparr>],
      searchWorld\<lparr>trace := [e, SqlSelectSimilar ''w1'' ''{C}'']\<rparr>)"
  by (simp add: search_defs demoEnv_def searchWorld_def)

lemma explicit_sources:
  "fst (buildSources
         [\<lparr>res_pageId = ''pC'', res_spaceId = ''C'', res_chunkIndex = 0,
           res_chunkText = Some ''gamma'', res_distance = 1 / 100 :: real\<rparr>] w)
   = [\<lparr>src_pageId = ''pC'', title = ''Untitled'', slugId = ''third'', spaceSlug = ''space-c'',
       similarity = 99 / 100, src_distance = 1 / 100, src_chunkIndex = 0, excerpt = ''gamma''\<rparr>]"
  if "pages w = pages searchWorld" "spaces w = spaces searchWorld"
  using that by (simp add: buildSources_def searchWorld_def Let_def)

text \<open>
  C1. A query issued by a user with access to spaces \<open>{A, B}\<close> is meant never to
  return a chunk from space \<open>C\<close>. On the code: the resolver gives the user the spaces
  \<open>A\<close> and \<open>B\<close>, the store holds a chunk of \<open>A\<close> at distance 0.1 and a chunk of
  \<open>C\<close> at distance 0.01, and the request names \<open>C\<close> as its target space. The explicit
  space replaces the resolver's answer without being checked against it, neither by the
  service nor by the controller, and the chunk of \<open>C\<close> is returned and cited.
\<close>

theorem explicit_space_escapes_scope:
  "getUserSpaceIds demoEnv ''alice'' = [''A'', ''B'']
   \<and> map res_spaceId
         (fst (findSimilarChunks demoEnv [0] ''w1'' ''alice'' (Some ''C'') searchWorld)) = [''C'']
   \<and> written (fst (ask demoEnv (demoDto\<lparr>dto_spaceId := Some ''C''\<rparr>) alice demoWorkspace searchWorld))
       = [Data (Content ''Hello''), Data (Content '' world''),
          Data (Sources
            [\<lparr>src_pageId = ''pC'', title = ''Untitled'', slugId = ''third'',
              spaceSlug = ''space-c'', similarity = 99 / 100, src_distance = 1 / 100,
              src_chunkIndex = 0, excerpt = ''gamma''\<rparr>]),
          Done]"
proof -
  have em: "getEmbeddingModel demoEnv = Inr (EmbeddingModel (OpenAI ''key'') ''text-embedding-3-small'')"
    and lm: "getLanguageModel demoEnv = Inr (LanguageModel (OpenAI ''key'') ''gpt-4o-mini'')"
    and e: "embed demoEnv m q = Inr [0]"
    and st: "streamText demoEnv l p q = ([''Hello'', '' world''], None)" for m q l p
    by (simp_all add: getEmbeddingModel_def getLanguageModel_def demoEnv_def)
  have src: "fst (buildSources
         [\<lparr>res_pageId = ''pC'', res_spaceId = ''C'', res_chunkIndex = 0,
           res_chunkText = Some ''gamma'', res_distance = 1 / 100 :: real\<rparr>]
         (emit ev (searchWorld\<lparr>trace := tr\<rparr>)))
   = [\<lparr>src_pageId = ''pC'', title = ''Untitled'', slugId = ''third'', spaceSlug = ''space-c'',
       similarity = 99 / 100, src_distance = 1 / 100, src_chunkIndex = 0, excerpt = ''gamma''\<rparr>]" for ev tr
    by (rule explicit_sources) (simp_all add: emit_def)
  have "written (fst (ask demoEnv (demoDto\<lparr>dto_spaceId := Some ''C''\<rparr>) alice demoWorkspace searchWorld))
       = [Data (Content ''Hello''), Data (Content '' world''),
          Data (Sources
            [\<lparr>src_pageId = ''pC'', title = ''Untitled'', slugId = ''third'',
              spaceSlug = ''space-c'', similarity = 99 / 100, src_distance = 1 / 100,
              src_chunkIndex = 0, excerpt = ''gamma''\<rparr>]),
          Done]"
    by (simp add: ask_def askQuestion_def demoDto_def alice_def demoWorkspace_def
          em lm e st explicit_search src Let_def case_prod_beta)
  moreover have "map res_spaceId
         (fst (findSimilarChunks demoEnv [0] ''w1'' ''alice'' (Some ''C'') searchWorld)) = [''C'']"
    by (simp add: search_defs demoEnv_def searchWorld_def)
  ultimately show ?thesis by (simp add: demo_spaces)
qed


text \<open>
  What retrieval does guarantee. The chunks returned come from rows of the queried
  workspace whose space is in the set the function resolved (the explicit target space
  alone if one is given, else the resolver's answer for the user; identifiers free of
  commas, as UUIDs are); with no explicit target space they are all in spaces the
  resolver gave the user; they are in ascending order of distance, and at most 10.
\<close>

theorem retrieval_scoped:
  assumes "findSimilarChunks env queryVector workspaceId userId spaceId w = (chunks, w')"
    and "allowed = (if truthy spaceId then [the spaceId] else getUserSpaceIds env userId)"
    and "\<forall>s\<in>set allowed. CHR '','' \<notin> set s"
  shows "(\<forall>c\<in>set chunks.
            \<exists>pe\<in>set (page_embeddings w).
               workspace_id pe = workspaceId
             \<and> space_id pe \<in> set allowed
             \<and> res_spaceId c = space_id pe
             \<and> res_pageId c = page_id pe
             \<and> res_chunkIndex c = chunk_index pe
             \<and> res_distance c = cosine_distance env (embedding pe) (toSql env (Some queryVector)))
       \<and> (\<not> truthy spaceId \<longrightarrow> (\<forall>c\<in>set chunks. res_spaceId c \<in> set (getUserSpaceIds env userId)))
       \<and> sorted (map res_distance chunks)
       \<and> length chunks \<le> 10"
proof (cases "allowed = []")
  case True
  with assms(1,2) have "chunks = []"
    by (auto simp: findSimilarChunks_def Let_def split: if_splits)
  then show ?thesis by simp
next
  case False
  let ?w1 = "if truthy spaceId then w else emit (SqlSelectUserSpaceIds userId) w"
  from assms(1,2) False
  have chunks: "chunks = selectSimilar env (toSql env (Some queryVector)) workspaceId
                           (pgArrayLiteral allowed) ?w1"
    by (auto simp: findSimilarChunks_def Let_def split: if_splits)
  have rows: "page_embeddings ?w1 = page_embeddings w" by (simp add: emit_def)
  note props = selectSimilar_props
    [of env "toSql env (Some queryVector)" workspaceId "pgArrayLiteral allowed" ?w1,
     folded chunks, unfolded rows]
  note sub = arrayElements_literal [OF assms(3)]
  have scoped: "\<forall>c\<in>set chunks.
            \<exists>pe\<in>set (page_embeddings w).
               workspace_id pe = workspaceId
             \<and> space_id pe \<in> set allowed
             \<and> res_spaceId c = space_id pe
             \<and> res_pageId c = page_id pe
             \<and> res_chunkIndex c = chunk_index pe
             \<and> res_distance c = cosine_distance env (embedding pe) (toSql env (Some queryVector))"
    using props(1) sub by fastforce
  then have "\<not> truthy spaceId \<longrightarrow> (\<forall>c\<in>set chunks. res_spaceId c \<in> set (getUserSpaceIds env userId))"
    using assms(2) by fastforce
  with scoped props(2,3) show ?thesis by (simp add: TOP_K_def)
qed

lemma demo_search:
  "findSimilarChunks demoEnv [0] ''w1'' ''alice'' None searchWorld
   = ([\<lparr>res_pageId = ''pA'', res_spaceId = ''A'', res_chunkIndex = 0,
         res_chunkText = Some ''alpha'', res_distance = 1 / 10\<rparr>],
      searchWorld\<lparr>trace := [SqlSelectUserSpaceIds ''alice'', SqlSelectSimilar ''w1'' ''{A,B}'']\<rparr>)"
  by (simp add: search_defs demoEnv_def searchWorld_def)

theorem retrieval_scoped_witness:
  "map (\<lambda>c. (res_spaceId c, res_distance c))
     (fst (findSimilarChunks demoEnv [0] ''w1'' ''alice'' None searchWorld)) = [(''A'', 1 / 10)]
   \<and> list_all (\<lambda>c. res_spaceId c \<in> set (getUserSpaceIds demoEnv ''alice''))
        (fst (findSimilarChunks demoEnv [0] ''w1'' ''alice'' None searchWorld))"
  using retrieval_scoped [OF demo_search, of "[''A'', ''B'']"]
  by (simp add: demo_search truthy_def demo_spaces)



text \<open>The outcomes of the generator, case by case.\<close>

lemma askQuestion_cases:
  assumes "askQuestion env question workspaceId userId spaceId w = (events, failure, w')"
  shows "(failure \<noteq> None \<and> (\<exists>texts. events = map (\<lambda>t. Data (Content t)) texts))
       \<or> (failure = None
           \<and> events = [Data (Content ''No relevant content found in your workspace for this query.''),
                       Data (Sources []), Done])
       \<or> (failure = None
           \<and> (\<exists>embeddingModel queryVector chunks w2 languageModel texts.
                 getEmbeddingModel env = Inr embeddingModel
               \<and> embed env embeddingModel question = Inr queryVector
               \<and> findSimilarChunks env queryVector workspaceId userId spaceId
                    (emit (EmbedCall embeddingModel question) w) = (chunks, w2)
               \<and> chunks \<noteq> []
               \<and> getLanguageModel env = Inr languageModel
               \<and> streamText env languageModel (buildSystemPrompt chunks) question = (texts, None)
               \<and> events = map (\<lambda>t. Data (Content t)) texts
                            @ [Data (Sources (fst (buildSources chunks
                                  (emit (StreamTextCall languageModel (buildSystemPrompt chunks) question) w2)))), Done]))"
proof (cases "getEmbeddingModel env")
  case (Inl err)
  with assms have "failure \<noteq> None" and "events = map (\<lambda>t. Data (Content t)) []"
    by (auto simp: askQuestion_def)
  then show ?thesis by blast
next
  case em: (Inr embeddingModel)
  let ?w1 = "emit (EmbedCall embeddingModel question) w"
  show ?thesis
  proof (cases "embed env embeddingModel question")
    case (Inl err)
    with assms em have "failure \<noteq> None" and "events = map (\<lambda>t. Data (Content t)) []"
      by (auto simp: askQuestion_def Let_def)
    then show ?thesis by blast
  next
    case qv: (Inr queryVector)
    obtain chunks w2 where fs: "findSimilarChunks env queryVector workspaceId userId spaceId ?w1
        = (chunks, w2)"
      by (cases "findSimilarChunks env queryVector workspaceId userId spaceId ?w1") blast
    show ?thesis
    proof (cases "chunks = []")
      case True
      with assms em qv fs show ?thesis by (auto simp: askQuestion_def Let_def)
    next
      case ne: False
      show ?thesis
      proof (cases "getLanguageModel env")
        case (Inl err)
        with assms em qv fs ne
        have "failure \<noteq> None" and "events = map (\<lambda>t. Data (Content t)) []"
          by (auto simp: askQuestion_def Let_def)
        then show ?thesis by blast
      next
        case lm: (Inr languageModel)
        let ?w3 = "emit (StreamTextCall languageModel (buildSystemPrompt chunks) question) w2"
        obtain texts fl where st:
          "streamText env languageModel (buildSystemPrompt chunks) question = (texts, fl)"
          by (cases "streamText env languageModel (buildSystemPrompt chunks) question") blast
        show ?thesis
        proof (cases fl)
          case (Some err)
          with assms em qv fs ne lm st
          have "failure \<noteq> None" and "events = map (\<lambda>t. Data (Content t)) texts"
            by (auto simp: askQuestion_def Let_def)
          then show ?thesis by blast
        next
          case None
          with assms em qv fs ne lm st
          have "failure = None"
            and "events = map (\<lambda>t. Data (Content t)) texts
                   @ [Data (Sources (fst (buildSources chunks ?w3))), Done]"
            by (auto simp: askQuestion_def Let_def split: prod.splits)
          with em qv fs ne lm st None
          have "\<exists>embeddingModel queryVector chunks w2 languageModel texts.
                 getEmbeddingModel env = Inr embeddingModel
               \<and> embed env embeddingModel question = Inr queryVector
               \<and> findSimilarChunks env queryVector workspaceId userId spaceId
                    (emit (EmbedCall embeddingModel question) w) = (chunks, w2)
               \<and> chunks \<noteq> []
               \<and> getLanguageModel env = Inr languageModel
               \<and> streamText env languageModel (buildSystemPrompt chunks) question = (texts, None)
               \<and> events = map (\<lambda>t. Data (Content t)) texts
                            @ [Data (Sources (fst (buildSources chunks
                                  (emit (StreamTextCall languageModel (buildSystemPrompt chunks) question) w2)))), Done]"
            by blast
          with \<open>failure = None\<close> show ?thesis by simp
        qed
      qed
    qed
  qed
qed

text \<open>
  C3. Whenever \<open>askQuestion\<close> completes without throwing, what it yields is: content
  events, then exactly one sources event, then the terminal marker, and nothing else.
  The content events are either the single notice that nothing relevant was found
  (with empty sources) or the text parts of the model's stream, in the order the stream
  produced them.
\<close>

theorem answer_event_order:
  assumes "askQuestion env question workspaceId userId spaceId w = (events, None, w')"
  shows "\<exists>texts sources.
           events = map (\<lambda>t. Data (Content t)) texts @ [Data (Sources sources), Done]
         \<and> ((texts = [''No relevant content found in your workspace for this query.'']
              \<and> sources = [])
            \<or> (\<exists>languageModel systemPrompt.
                  getLanguageModel env = Inr languageModel
                \<and> streamText env languageModel systemPrompt question = (texts, None)))"
proof -
  from askQuestion_cases [OF assms]
  consider "events = [Data (Content ''No relevant content found in your workspace for this query.''),
                       Data (Sources []), Done]"
    | languageModel systemPrompt texts sources where
        "getLanguageModel env = Inr languageModel"
        "streamText env languageModel systemPrompt question = (texts, None)"
        "events = map (\<lambda>t. Data (Content t)) texts @ [Data (Sources sources), Done]"
    by blast
  then show ?thesis
  proof cases
    case 1
    then show ?thesis
      by (intro exI [of _ "[''No relevant content found in your workspace for this query.'']"]
                exI [of _ "[]"]) simp
  next
    case 2
    then show ?thesis by blast
  qed
qed

text \<open>
  C2. When \<open>askQuestion\<close> throws, the endpoint has written the content events
  yielded before the failure, then writes exactly one error event carrying the message
  (or the default message for a thrown value that is not an \<open>Error\<close>) and ends the
  response: the error event is the last line written, no content event follows it, and
  the terminal sentinel line is not written.
\<close>

theorem query_failure_event:
  assumes "askQuestion env (dto_query dto) (workspace_id_of authWorkspace) (user_id authUser)
             (dto_spaceId dto) w = (chunks, Some err, w1)"
  shows "\<exists>texts.
           chunks = map (\<lambda>t. Data (Content t)) texts
         \<and> written (fst (ask env dto authUser authWorkspace w))
             = map (\<lambda>t. Data (Content t)) texts
               @ [Data (ErrorMessage (message_or ''An unexpected error occurred'' err))]
         \<and> ended (fst (ask env dto authUser authWorkspace w))
         \<and> Done \<notin> set (written (fst (ask env dto authUser authWorkspace w)))"
proof -
  from askQuestion_cases [OF assms] obtain texts
    where texts: "chunks = map (\<lambda>t. Data (Content t)) texts"
    by auto
  have "written (fst (ask env dto authUser authWorkspace w))
          = chunks @ [Data (ErrorMessage (message_or ''An unexpected error occurred'' err))]"
    and "ended (fst (ask env dto authUser authWorkspace w))"
    by (simp_all add: ask_def assms Let_def)
  with texts show ?thesis by auto
qed


lemma demo_search_after_embed:
  "findSimilarChunks env [0] ''w1'' ''alice'' None (emit e searchWorld)
   = ([\<lparr>res_pageId = ''pA'', res_spaceId = ''A'', res_chunkIndex = 0,
         res_chunkText = Some ''alpha'', res_distance = 1 / 10\<rparr>],
      searchWorld\<lparr>trace := [e, SqlSelectUserSpaceIds ''alice'', SqlSelectSimilar ''w1'' ''{A,B}'']\<rparr>)"
  if "getUserSpaceIds env = getUserSpaceIds demoEnv" "toSql env = toSql demoEnv"
     "cosine_distance env = cosine_distance demoEnv"
  using that by (simp add: search_defs demoEnv_def searchWorld_def)

lemma demo_sources:
  "fst (buildSources
         [\<lparr>res_pageId = ''pA'', res_spaceId = ''A'', res_chunkIndex = 0,
           res_chunkText = Some ''alpha'', res_distance = 1 / 10 :: real\<rparr>] w)
   = [\<lparr>src_pageId = ''pA'', title = ''First'', slugId = ''first'', spaceSlug = ''space-a'',
       similarity = 9 / 10, src_distance = 1 / 10, src_chunkIndex = 0, excerpt = ''alpha''\<rparr>]"
  if "pages w = pages searchWorld" "spaces w = spaces searchWorld"
  using that by (simp add: buildSources_def searchWorld_def Let_def)

lemma demo_answer:
  "fst (askQuestion demoEnv ''what?'' ''w1'' ''alice'' None searchWorld)
   = [Data (Content ''Hello''), Data (Content '' world''),
      Data (Sources
        [\<lparr>src_pageId = ''pA'', title = ''First'', slugId = ''first'', spaceSlug = ''space-a'',
          similarity = 9 / 10, src_distance = 1 / 10, src_chunkIndex = 0, excerpt = ''alpha''\<rparr>]),
      Done]"
  "fst (snd (askQuestion demoEnv ''what?'' ''w1'' ''alice'' None searchWorld)) = None"
proof -
  have em: "getEmbeddingModel demoEnv = Inr (EmbeddingModel (OpenAI ''key'') ''text-embedding-3-small'')"
    and lm: "getLanguageModel demoEnv = Inr (LanguageModel (OpenAI ''key'') ''gpt-4o-mini'')"
    and e: "embed demoEnv m q = Inr [0]"
    and st: "streamText demoEnv l p q = ([''Hello'', '' world''], None)" for m q l p
    by (simp_all add: getEmbeddingModel_def getLanguageModel_def demoEnv_def)
  note fs = demo_search_after_embed [of demoEnv, OF refl refl refl]
  have src: "fst (buildSources
         [\<lparr>res_pageId = ''pA'', res_spaceId = ''A'', res_chunkIndex = 0,
           res_chunkText = Some ''alpha'', res_distance = 1 / 10 :: real\<rparr>]
         (emit ev (searchWorld\<lparr>trace := tr\<rparr>)))
   = [\<lparr>src_pageId = ''pA'', title = ''First'', slugId = ''first'', spaceSlug = ''space-a'',
       similarity = 9 / 10, src_distance = 1 / 10, src_chunkIndex = 0, excerpt = ''alpha''\<rparr>]" for ev tr
    by (rule demo_sources) (simp_all add: emit_def)
  show "fst (askQuestion demoEnv ''what?'' ''w1'' ''alice'' None searchWorld)
   = [Data (Content ''Hello''), Data (Content '' world''),
      Data (Sources
        [\<lparr>src_pageId = ''pA'', title = ''First'', slugId = ''first'', spaceSlug = ''space-a'',
          similarity = 9 / 10, src_distance = 1 / 10, src_chunkIndex = 0, excerpt = ''alpha''\<rparr>]),
      Done]"
    by (simp add: askQuestion_def em lm e st fs src Let_def case_prod_beta)
  show "fst (snd (askQuestion demoEnv ''what?'' ''w1'' ''alice'' None searchWorld)) = None"
    by (simp add: askQuestion_def em lm e st fs Let_def case_prod_beta)
qed

theorem answer_event_order_witness:
  "fst (askQuestion demoEnv ''what?'' ''w1'' ''alice'' None searchWorld)
   = [Data (Content ''Hello''), Data (Content '' world''),
      Data (Sources
        [\<lparr>src_pageId = ''pA'', title = ''First'', slugId = ''first'', spaceSlug = ''space-a'',
          similarity = 9 / 10, src_distance = 1 / 10, src_chunkIndex = 0, excerpt = ''alpha''\<rparr>]),
      Done]"
  using answer_event_order
    [of demoEnv "''what?''" "''w1''" "''alice''" None searchWorld
        "fst (askQuestion demoEnv ''what?'' ''w1'' ''alice'' None searchWorld)"
        "snd (snd (askQuestion demoEnv ''what?'' ''w1'' ''alice'' None searchWorld))"]
    demo_answer(2)
  by (simp add: demo_answer(1))

lemma failing_search:
  "fst (findSimilarChunks streamFailEnv [0] ''w1'' ''alice'' sid (emit ev searchWorld)) \<noteq> []"
  if "sid = None \<or> sid = Some ''A''"
  using that by (auto simp: search_defs streamFailEnv_def demoEnv_def searchWorld_def)

lemma failing_answer:
  "fst (askQuestion streamFailEnv ''what?'' ''w1'' ''alice'' sid searchWorld) = [Data (Content ''Hel'')]"
  "fst (snd (askQuestion streamFailEnv ''what?'' ''w1'' ''alice'' sid searchWorld)) = Some (Error ''boom'')"
  if "sid = None \<or> sid = Some ''A''"
proof -
  have em: "getEmbeddingModel streamFailEnv = Inr (EmbeddingModel (OpenAI ''key'') ''text-embedding-3-small'')"
    and lm: "getLanguageModel streamFailEnv = Inr (LanguageModel (OpenAI ''key'') ''gpt-4o-mini'')"
    and e: "embed streamFailEnv m q = Inr [0]"
    and st: "streamText streamFailEnv l p q = ([''Hel''], Some (Error ''boom''))" for m q l p
    by (simp_all add: getEmbeddingModel_def getLanguageModel_def streamFailEnv_def demoEnv_def)
  note fs = failing_search [OF that]
  show "fst (askQuestion streamFailEnv ''what?'' ''w1'' ''alice'' sid searchWorld) = [Data (Content ''Hel'')]"
    by (simp add: askQuestion_def em lm e st fs Let_def case_prod_beta)
  show "fst (snd (askQuestion streamFailEnv ''what?'' ''w1'' ''alice'' sid searchWorld)) = Some (Error ''boom'')"
    by (simp add: askQuestion_def em lm e st fs Let_def case_prod_beta)
qed

text \<open>
  C2 on a stream that fails: the completion stream yields one part and then throws.
  The controller writes the content event and the error event and ends the response;
  the terminal sentinel line is not written after the error event.
\<close>

theorem missing_sentinel_counterexample:
  "written (fst (ask streamFailEnv demoDto alice demoWorkspace searchWorld))
     = [Data (Content ''Hel''), Data (ErrorMessage ''boom'')]
   \<and> Done \<notin> set (written (fst (ask streamFailEnv demoDto alice demoWorkspace searchWorld)))
   \<and> ended (fst (ask streamFailEnv demoDto alice demoWorkspace searchWorld))"
  using failing_answer [of None]
  by (simp add: ask_def demoDto_def alice_def demoWorkspace_def message_or_def Let_def
        case_prod_beta)

theorem query_failure_event_witness:
  "written (fst (ask streamFailEnv (demoDto\<lparr>dto_spaceId := Some ''A''\<rparr>) alice demoWorkspace searchWorld))
     = [Data (Content ''Hel''), Data (ErrorMessage ''boom'')]"
proof -
  have run: "askQuestion streamFailEnv (dto_query (demoDto\<lparr>dto_spaceId := Some ''A''\<rparr>))
               (workspace_id_of demoWorkspace) (user_id alice)
               (dto_spaceId (demoDto\<lparr>dto_spaceId := Some ''A''\<rparr>)) searchWorld
             = ([Data (Content ''Hel'')], Some (Error ''boom''),
                snd (snd (askQuestion streamFailEnv ''what?'' ''w1'' ''alice'' (Some ''A'') searchWorld)))"
    using failing_answer [of "Some ''A''"]
    by (simp add: demoDto_def alice_def demoWorkspace_def prod_eq_iff)
  from query_failure_event [OF run] show ?thesis
    by (auto simp: message_or_def)
qed
section \<open>Properties of the license check\<close>

text \<open>
  C10. The client-side license check is constant: \<open>useLicense\<close> answers
  \<open>hasLicenseKey = true\<close> for every value of \<open>currentUserAtom\<close>, and whenever the
  current user carries a workspace the getter of \<open>workspaceAtom\<close> returns that workspace
  with \<open>hasLicenseKey\<close> set to true and every other field as stored, whatever the stored
  flag was; with no workspace it returns null.
\<close>

theorem license_check_constant:
  "licenseHasLicenseKey (useLicense cu)
   \<and> (\<forall>w. workspaceAtom cu = Some w \<longrightarrow> hasLicenseKey w)
   \<and> (\<forall>u stored. cu = Some u \<and> workspace u = Some stored \<longrightarrow>
         workspaceAtom cu = Some (stored\<lparr>hasLicenseKey := True\<rparr>))
   \<and> ((cu = None \<or> (\<exists>u. cu = Some u \<and> workspace u = None)) \<longrightarrow> workspaceAtom cu = None)"
  by (auto simp: useLicense_def workspaceAtom_def split: option.splits)

theorem license_check_constant_witness:
  "licenseHasLicenseKey (useLicense (Some \<lparr>user = ''u1'', workspace = Some \<lparr>hasLicenseKey = False\<rparr>\<rparr>))
   \<and> workspaceAtom (Some \<lparr>user = ''u1'', workspace = Some \<lparr>hasLicenseKey = False\<rparr>\<rparr>)
       = Some \<lparr>hasLicenseKey = True\<rparr>"
  using license_check_constant
    [of "Some \<lparr>user = ''u1'', workspace = Some \<lparr>hasLicenseKey = False\<rparr>\<rparr>"]
  by simp

end
